theory Spec2Isabelle
  imports Complex_Main "HOL-Library.Word"
begin

section \<open>Python values used by the procurement request system\<close>

text \<open>
  A Python \<open>str\<close> is modelled as a \<open>string\<close> whose characters are the code points below
  256; \<open>length\<close> counts code points, as Python's \<open>len\<close> does. Uploaded bytes are a list
  of 8-bit words.
\<close>

type_synonym byte = "8 word"

subsection \<open>Strings: strip, lower, upper, endswith, join\<close>

definition is_space :: "char \<Rightarrow> bool" where
  \<comment> \<open>the characters \<open>str.strip()\<close> removes: U+0009..U+000D, U+001C..U+0020, U+0085, U+00A0\<close>
  "is_space c = (let n = (of_char c :: nat) in
     (9 \<le> n \<and> n \<le> 13) \<or> (28 \<le> n \<and> n \<le> 32) \<or> n = 133 \<or> n = 160)"

definition strip :: "string \<Rightarrow> string" where
  "strip s = rev (dropWhile is_space (rev (dropWhile is_space s)))"

definition lower_char :: "char \<Rightarrow> char" where
  "lower_char c = (let n = (of_char c :: nat) in
     if (65 \<le> n \<and> n \<le> 90) \<or> (192 \<le> n \<and> n \<le> 214) \<or> (216 \<le> n \<and> n \<le> 222)
     then char_of (n + 32) else c)"

definition lower :: "string \<Rightarrow> string" where
  "lower s = map lower_char s"

definition upper_char :: "char \<Rightarrow> string" where
  \<comment> \<open>\<open>str.upper()\<close> one character at a time. U+00DF becomes the two letters SS. The upper
      case forms of U+00B5 and U+00FF lie beyond code point 255; the character itself stands
      for them here: like them it is no space, no digit, no hyphen and no letter A to Z.\<close>
  "upper_char c = (let n = (of_char c :: nat) in
     if (97 \<le> n \<and> n \<le> 122) \<or> (224 \<le> n \<and> n \<le> 246) \<or> (248 \<le> n \<and> n \<le> 254)
     then [char_of (n - 32)]
     else if n = 223 then ''SS''
     else [c])"

definition upper :: "string \<Rightarrow> string" where
  "upper s = concat (map upper_char s)"

definition replace_spaces :: "string \<Rightarrow> string" where
  \<comment> \<open>\<open>s.replace(" ", "")\<close>\<close>
  "replace_spaces s = filter (\<lambda>c. c \<noteq> CHR '' '') s"

definition endswith :: "string \<Rightarrow> string \<Rightarrow> bool" where
  "endswith s suffix = (length suffix \<le> length s \<and> drop (length s - length suffix) s = suffix)"

fun join :: "string \<Rightarrow> string list \<Rightarrow> string" where
  "join sep [] = []"
| "join sep [x] = x"
| "join sep (x # y # ys) = x @ sep @ join sep (y # ys)"

fun dec :: "nat \<Rightarrow> string" where
  "dec n = (if n < 10 then [''0123456789'' ! n]
            else dec (n div 10) @ [''0123456789'' ! (n mod 10)])"

declare dec.simps [simp del]

definition str_int :: "int \<Rightarrow> string" where
  "str_int i = (if i < 0 then ''-'' @ dec (nat (- i)) else dec (nat i))"

subsection \<open>JSON values as Python objects\<close>

text \<open>
  The field extractor returns what \<open>JsonOutputParser\<close> parsed: \<open>None\<close>, \<open>bool\<close>, \<open>int\<close>,
  \<open>float\<close>, \<open>str\<close>, \<open>list\<close> and \<open>dict\<close> objects. A float is carried as its \<open>repr\<close>, the
  text \<open>str()\<close> returns for it; the code under study never computes with one.
\<close>

datatype json = JNull | JBool bool | JInt int | JFloat string | JStr string
  | JList "json list" | JDict "(string \<times> json) list"

type_synonym pydict = "(string \<times> json) list"

fun truthy :: "json \<Rightarrow> bool" where
  "truthy JNull = False"
| "truthy (JBool b) = b"
| "truthy (JInt i) = (i \<noteq> 0)"
| "truthy (JFloat r) = (r \<noteq> ''0.0'' \<and> r \<noteq> ''-0.0'')"
| "truthy (JStr s) = (s \<noteq> [])"
| "truthy (JList xs) = (xs \<noteq> [])"
| "truthy (JDict kvs) = (kvs \<noteq> [])"

definition hex2 :: "nat \<Rightarrow> string" where
  "hex2 n = [''0123456789abcdef'' ! (n div 16), ''0123456789abcdef'' ! (n mod 16)]"

definition repr_quote :: "string \<Rightarrow> char" where
  \<comment> \<open>double quotes only when the text has a single quote and no double quote\<close>
  "repr_quote s = (if CHR 0x27 \<in> set s \<and> CHR 0x22 \<notin> set s then CHR 0x22 else CHR 0x27)"

definition repr_char :: "char \<Rightarrow> char \<Rightarrow> string" where
  "repr_char q c = (let n = (of_char c :: nat) in
     if c = q \<or> n = 92 then [CHR 0x5C, c]
     else if n = 9 then [CHR 0x5C, CHR ''t'']
     else if n = 10 then [CHR 0x5C, CHR ''n'']
     else if n = 13 then [CHR 0x5C, CHR ''r'']
     else if n < 32 \<or> n = 127 then [CHR 0x5C, CHR ''x''] @ hex2 n
     else if n < 127 then [c]
     else if n \<le> 160 \<or> n = 173 then [CHR 0x5C, CHR ''x''] @ hex2 n
     else [c])"

definition repr_str :: "string \<Rightarrow> string" where
  "repr_str s = (let q = repr_quote s in [q] @ concat (map (repr_char q) s) @ [q])"

fun py_repr :: "json \<Rightarrow> string" where
  "py_repr JNull = ''None''"
| "py_repr (JBool b) = (if b then ''True'' else ''False'')"
| "py_repr (JInt i) = str_int i"
| "py_repr (JFloat r) = r"
| "py_repr (JStr s) = repr_str s"
| "py_repr (JList xs) = ''['' @ join '', '' (map py_repr xs) @ '']''"
| "py_repr (JDict kvs) =
     ''{'' @ join '', '' (map (\<lambda>(k, v). repr_str k @ '': '' @ py_repr v) kvs) @ ''}''"

definition py_str :: "json \<Rightarrow> string" where
  \<comment> \<open>\<open>str(v)\<close>: a string is itself, everything else prints as its \<open>repr\<close>\<close>
  "py_str v = (case v of JStr s \<Rightarrow> s | _ \<Rightarrow> py_repr v)"

datatype pyexc = PyException string

fun exc_str :: "pyexc \<Rightarrow> string" where
  "exc_str (PyException m) = m"

definition type_name :: "json \<Rightarrow> string" where
  "type_name v = (case v of JNull \<Rightarrow> ''NoneType'' | JBool _ \<Rightarrow> ''bool'' | JInt _ \<Rightarrow> ''int''
     | JFloat _ \<Rightarrow> ''float'' | JStr _ \<Rightarrow> ''str'' | JList _ \<Rightarrow> ''list'' | JDict _ \<Rightarrow> ''dict'')"

definition py_len :: "json \<Rightarrow> pyexc + nat" where
  \<comment> \<open>\<open>len(v)\<close> raises TypeError on an object without a length\<close>
  "py_len v = (case v of
       JStr s \<Rightarrow> Inr (length s)
     | JList xs \<Rightarrow> Inr (length xs)
     | JDict kvs \<Rightarrow> Inr (length kvs)
     | _ \<Rightarrow> Inl (PyException (''object of type '' @ [CHR 0x27] @ type_name v @ [CHR 0x27]
                @ '' has no len()'')))"

definition dict_get :: "pydict \<Rightarrow> string \<Rightarrow> json \<Rightarrow> json" where
  \<comment> \<open>\<open>d.get(key, default)\<close>\<close>
  "dict_get d k dflt = (case map_of d k of Some v \<Rightarrow> v | None \<Rightarrow> dflt)"

definition dict_keys :: "pydict \<Rightarrow> string list" where
  "dict_keys d = map fst d"

definition has_result :: "pydict option \<Rightarrow> bool" where
  \<comment> \<open>the truth value of an \<open>Optional[dict]\<close>: \<open>None\<close> and the empty dict are false\<close>
  "has_result r = (case r of None \<Rightarrow> False | Some d \<Rightarrow> d \<noteq> [])"

section \<open>The extraction endpoint (app/routes/ai.py)\<close>

datatype failure = HTTPException nat string | Unhandled pyexc

datatype event =
    LogInfo string
  | LogError string
  | Call_extract_document string
  | Call_extract_text_with_ocr

text \<open>
  A structural page is the outcome of \<open>page.extract_text()\<close>: it raises, returns \<open>None\<close>
  or returns text. An OCR page is the outcome of rendering the page and asking the vision
  model for its text: one of the calls raises, or the reply's content is a string.
\<close>

type_synonym page = "pyexc + string option"
type_synonym ocr_page = "pyexc + string"

text \<open>
  The external collaborators of one request. The language model may answer the two calls
  of \<open>extract_document\<close> differently, so each call has its own oracle.
\<close>

record env =
  pdf_reader :: "byte list \<Rightarrow> pyexc + page list"
  fitz_open :: "byte list \<Rightarrow> pyexc + ocr_page list"
  extract_document_pypdf :: "string \<Rightarrow> pyexc + pydict"
  extract_document_ocr :: "string \<Rightarrow> pyexc + pydict"

record upload =
  filename :: "string option"
  content :: "byte list"

definition MAX_PDF_SIZE_BYTES :: nat where
  "MAX_PDF_SIZE_BYTES = 10 * 1024 * 1024"

definition PAGE_BREAK :: string where
  "PAGE_BREAK = [CHR 0x0A, CHR 0x0A] @ ''=== PAGE BREAK ==='' @ [CHR 0x0A, CHR 0x0A]"

fun ocr_pages :: "ocr_page list \<Rightarrow> string list \<Rightarrow> pyexc + string list" where
  "ocr_pages [] all_text = Inr all_text"
| "ocr_pages (p # ps) all_text =
     (case p of Inl e \<Rightarrow> Inl e | Inr t \<Rightarrow> ocr_pages ps (all_text @ [t]))"

definition extract_text_with_ocr :: "env \<Rightarrow> byte list \<Rightarrow> pyexc + string" where
  "extract_text_with_ocr env pdf_content =
     (case fitz_open env pdf_content of
        Inl e \<Rightarrow> Inl (PyException (''Failed to open PDF: '' @ exc_str e))
      | Inr pdf_document \<Rightarrow>
          (case ocr_pages pdf_document [] of
             Inl e \<Rightarrow> Inl e
           | Inr all_text \<Rightarrow> Inr (join PAGE_BREAK all_text)))"

fun pypdf_pages :: "page list \<Rightarrow> string \<Rightarrow> pyexc + string" where
  \<comment> \<open>\<open>for page in pdf_reader.pages: pypdf_text += page.extract_text() or ""\<close>\<close>
  "pypdf_pages [] pypdf_text = Inr pypdf_text"
| "pypdf_pages (p # ps) pypdf_text =
     (case p of
        Inl e \<Rightarrow> Inl e
      | Inr t \<Rightarrow> pypdf_pages ps (pypdf_text @ (case t of None \<Rightarrow> [] | Some s \<Rightarrow> s)))"

definition structural_text :: "env \<Rightarrow> byte list \<Rightarrow> pyexc + string" where
  "structural_text env c =
     (case pdf_reader env c of Inl e \<Rightarrow> Inl e | Inr pages \<Rightarrow> pypdf_pages pages [])"

definition vat_log :: "string \<Rightarrow> pydict \<Rightarrow> string" where
  "vat_log prefix r = prefix @ py_str (dict_get r ''vat_id'' (JStr ''MISSING''))"

definition pypdf_attempt :: "env \<Rightarrow> string \<Rightarrow> pydict option \<times> event list" where
  "pypdf_attempt env pypdf_text =
     (if strip pypdf_text \<noteq> [] then
        (case extract_document_pypdf env pypdf_text of
           Inr r \<Rightarrow> (Some r, [Call_extract_document pypdf_text,
                               LogInfo (vat_log ''PyPDF2 extraction result: VAT ID = '' r)])
         | Inl e \<Rightarrow> (None, [Call_extract_document pypdf_text,
                             LogError (''PyPDF2 AI extraction failed: '' @ exc_str e)]))
      else (None, []))"

definition quality_gate :: "pydict option \<Rightarrow> (pyexc + bool) \<times> event list" where
  \<comment> \<open>step 3 of the endpoint: the value of \<open>needs_ocr\<close>, or the exception \<open>len\<close> raises\<close>
  "quality_gate pypdf_result =
     (if \<not> has_result pypdf_result then (Inr True, [LogInfo ''No PyPDF2 result, will use OCR''])
      else
        let d = the pypdf_result;
            vat_id = strip (py_str (dict_get d ''vat_id'' (JStr [])));
            vendor_name = strip (py_str (dict_get d ''vendor_name'' (JStr [])));
            department = strip (py_str (dict_get d ''department'' (JStr [])));
            title = strip (py_str (dict_get d ''title'' (JStr [])));
            order_lines = dict_get d ''order_lines'' (JList [])
        in if vat_id = [] then (Inr True, [LogInfo ''VAT ID missing, will use OCR''])
           else if vendor_name = [] then (Inr True, [LogInfo ''Vendor name missing, will use OCR''])
           else if department = [] then (Inr True, [LogInfo ''Department missing, will use OCR''])
           else if title = [] then (Inr True, [LogInfo ''Title missing, will use OCR''])
           else if \<not> truthy order_lines
             then (Inr True, [LogInfo ''No order lines found, will use OCR''])
           else (case py_len order_lines of
                   Inl e \<Rightarrow> (Inl e, [])
                 | Inr n \<Rightarrow> if n = 0
                     then (Inr True, [LogInfo ''No order lines found, will use OCR''])
                     else (Inr False, [])))"

definition ocr_failed :: "pydict option \<Rightarrow> pyexc \<Rightarrow> (failure + pydict option) \<times> event list" where
  \<comment> \<open>the \<open>except\<close> block of step 4\<close>
  "ocr_failed pypdf_result e =
     (if \<not> has_result pypdf_result
        then Inl (HTTPException 400 ''Could not extract text from PDF. PyPDF2 and OCR both failed.'')
        else Inr None,
      [LogError (''OCR extraction failed: '' @ exc_str e)])"

definition ocr_attempt ::
  "env \<Rightarrow> byte list \<Rightarrow> pydict option \<Rightarrow> (failure + pydict option) \<times> event list" where
  "ocr_attempt env c pypdf_result =
     (let start = [LogInfo ''Starting OCR extraction with Mistral Pixtral (critical fields missing)...'',
                   Call_extract_text_with_ocr]
      in case extract_text_with_ocr env c of
           Inl e \<Rightarrow> (fst (ocr_failed pypdf_result e), start @ snd (ocr_failed pypdf_result e))
         | Inr ocr_text \<Rightarrow>
             (let tr = start @ [LogInfo (''OCR extracted '' @ dec (length ocr_text) @ '' characters''),
                                Call_extract_document ocr_text]
              in case extract_document_ocr env ocr_text of
                   Inl e \<Rightarrow> (fst (ocr_failed pypdf_result e), tr @ snd (ocr_failed pypdf_result e))
                 | Inr r \<Rightarrow> (Inr (Some r),
                             tr @ [LogInfo (vat_log ''OCR extraction result: VAT ID = '' r)])))"

subsection \<open>The merge of two candidates\<close>

definition str_or_empty :: "json \<Rightarrow> string" where
  \<comment> \<open>\<open>str(val).strip() if val else ''\<close>\<close>
  "str_or_empty val = (if truthy val then strip (py_str val) else [])"

definition as_list :: "json \<Rightarrow> json list" where
  \<comment> \<open>\<open>val if isinstance(val, list) else []\<close>\<close>
  "as_list val = (case val of JList xs \<Rightarrow> xs | _ \<Rightarrow> [])"

definition merge_field :: "string \<Rightarrow> json \<Rightarrow> json \<Rightarrow> json" where
  "merge_field field pypdf_val ocr_val =
     (if field = ''order_lines'' then
        (let pypdf_lines = as_list pypdf_val; ocr_lines = as_list ocr_val
         in JList (if length pypdf_lines \<ge> length ocr_lines then pypdf_lines else ocr_lines))
      else if field = ''vendor_name'' \<or> field = ''department'' then
        (let ocr_str = str_or_empty ocr_val
         in if ocr_str \<noteq> [] then ocr_val else pypdf_val)
      else
        (let pypdf_str = str_or_empty pypdf_val; ocr_str = str_or_empty ocr_val
         in if pypdf_str = [] \<and> ocr_str \<noteq> [] then ocr_val
            else if ocr_str = [] \<and> pypdf_str \<noteq> [] then pypdf_val
            else if length ocr_str > length pypdf_str then ocr_val
            else pypdf_val))"

definition all_fields :: "pydict \<Rightarrow> pydict \<Rightarrow> string list" where
  \<comment> \<open>\<open>set(pypdf_result.keys()) | set(ocr_result.keys())\<close>. Python leaves the iteration order
      of a set open; the keys are listed here in order of first appearance, and no
      statement below depends on the order.\<close>
  "all_fields pypdf_result ocr_result = remdups (dict_keys pypdf_result @ dict_keys ocr_result)"

definition merge_results :: "pydict \<Rightarrow> pydict \<Rightarrow> pydict" where
  "merge_results pypdf_result ocr_result =
     map (\<lambda>field. (field, merge_field field (dict_get pypdf_result field (JStr []))
                                             (dict_get ocr_result field (JStr []))))
         (all_fields pypdf_result ocr_result)"

definition next_result :: "string \<Rightarrow> (string \<times> pydict) list \<Rightarrow> pydict" where
  \<comment> \<open>\<open>next((r for src, r in results if src == name), {})\<close>\<close>
  "next_result name results =
     (case filter (\<lambda>(src, r). src = name) results of [] \<Rightarrow> [] | (src, r) # _ \<Rightarrow> r)"

definition select_result ::
  "pydict option \<Rightarrow> pydict option \<Rightarrow> (failure + pydict) \<times> event list" where
  \<comment> \<open>step 5 and the merge step of the endpoint\<close>
  "select_result pypdf_result ocr_result =
     (let results = (if has_result pypdf_result then [(''pypdf'', the pypdf_result)] else [])
                  @ (if has_result ocr_result then [(''ocr'', the ocr_result)] else [])
      in if results = [] then (Inl (HTTPException 400 ''Could not extract data from PDF''), [])
         else if length results = 1 then (Inr (snd (hd results)), [])
         else
           (let merged = merge_results (next_result ''pypdf'' results) (next_result ''ocr'' results)
            in (Inr merged, [LogInfo (vat_log ''Final merged result: VAT ID = '' merged)])))"

definition valid_filename :: "string option \<Rightarrow> bool" where
  \<comment> \<open>the negation of \<open>not file.filename or not file.filename.lower().endswith(".pdf")\<close>\<close>
  "valid_filename fn = (case fn of None \<Rightarrow> False
     | Some name \<Rightarrow> name \<noteq> [] \<and> endswith (lower name) ''.pdf'')"

definition extract_document_endpoint :: "env \<Rightarrow> upload \<Rightarrow> (failure + pydict) \<times> event list" where
  "extract_document_endpoint env file =
     (if \<not> valid_filename (filename file)
        then (Inl (HTTPException 400 ''Only PDF files are allowed''), [])
      else if length (content file) > MAX_PDF_SIZE_BYTES
        then (Inl (HTTPException 400 (''File too large. Maximum size is ''
                @ dec (MAX_PDF_SIZE_BYTES div (1024 * 1024)) @ '' MB'')), [])
      else
        (case structural_text env (content file) of
           Inl e \<Rightarrow> (Inl (Unhandled e), [])
         | Inr pypdf_text \<Rightarrow>
            (let tr1 = [LogInfo (''PyPDF2 extracted '' @ dec (length pypdf_text) @ '' characters'')];
                 a = pypdf_attempt env pypdf_text;
                 pypdf_result = fst a;
                 g = quality_gate pypdf_result;
                 tr3 = tr1 @ snd a @ snd g
             in case fst g of
                  Inl e \<Rightarrow> (Inl (Unhandled e), tr3)
                | Inr needs_ocr \<Rightarrow>
                   (let oc = (if needs_ocr then ocr_attempt env (content file) pypdf_result
                             else (Inr None, []))
                    in case fst oc of
                         Inl f \<Rightarrow> (Inl f, tr3 @ snd oc)
                       | Inr ocr_result \<Rightarrow>
                          (let s = select_result pypdf_result ocr_result
                           in (fst s, tr3 @ snd oc @ snd s))))))"

definition ocr_invoked :: "event list \<Rightarrow> bool" where
  "ocr_invoked tr = (Call_extract_text_with_ocr \<in> set tr)"

section \<open>Request validation (app/models.py)\<close>

subsection \<open>The regular expressions the VAT pattern is built from\<close>

text \<open>
  \<open>Class rs m n\<close> is a character class of inclusive ranges repeated between \<open>m\<close> and \<open>n\<close>
  times, such as \<open>[0-9A-Z]{2,13}\<close>. \<open>residuals r s\<close> lists what is left of \<open>s\<close> after each
  way of matching \<open>r\<close> at its start, the longest repetition first; a backtracking matcher
  finds a match exactly when one of them suits the rest of the pattern.
\<close>

datatype rexp = Lit char | Class "(char \<times> char) list" nat nat | Seq rexp rexp | Alt rexp rexp

definition in_class :: "(char \<times> char) list \<Rightarrow> char \<Rightarrow> bool" where
  "in_class rs c =
     list_ex (\<lambda>(lo, hi). (of_char lo :: nat) \<le> of_char c \<and> (of_char c :: nat) \<le> of_char hi) rs"

fun residuals :: "rexp \<Rightarrow> string \<Rightarrow> string list" where
  "residuals (Lit c) s = (case s of [] \<Rightarrow> [] | x # xs \<Rightarrow> if x = c then [xs] else [])"
| "residuals (Class rs m n) s =
     (let k = length (takeWhile (in_class rs) s)
      in map (\<lambda>i. drop i s) (rev [m ..< Suc (min n k)]))"
| "residuals (Seq a b) s = concat (map (residuals b) (residuals a s))"
| "residuals (Alt a b) s = residuals a s @ residuals b s"

definition re_match :: "rexp \<Rightarrow> string \<Rightarrow> bool" where
  \<comment> \<open>\<open>re.compile("^(r)$").match(s)\<close>: \<open>$\<close> matches at the end and before a final newline\<close>
  "re_match r s = list_ex (\<lambda>rest. rest = [] \<or> rest = [CHR 0x0A]) (residuals r s)"

definition VAT_ID_PATTERN :: rexp where
  "VAT_ID_PATTERN =
     Alt (Seq (Class [(CHR ''A'', CHR ''Z'')] 2 2)
              (Class [(CHR ''0'', CHR ''9''), (CHR ''A'', CHR ''Z'')] 2 13))
    (Alt (Seq (Class [(CHR ''0'', CHR ''9'')] 2 2)
              (Seq (Lit CHR ''-'') (Class [(CHR ''0'', CHR ''9'')] 7 7)))
         (Class [(CHR ''0'', CHR ''9'')] 9 12))"

subsection \<open>The \<open>vat_id\<close> field of \<open>ProcurementRequest\<close>\<close>

datatype validation_error = string_too_short | string_too_long | value_error string

definition invalid_vat_id_message :: string where
  "invalid_vat_id_message = ''Invalid VAT ID format. Expected formats: ''
     @ ''EU VAT (e.g., DE123456789), US EIN (e.g., 12-3456789), ''
     @ ''or 9-12 digit number''"

definition validate_vat_id :: "string \<Rightarrow> validation_error + string" where
  "validate_vat_id v =
     (let v_clean = replace_spaces (upper (strip v))
      in if \<not> re_match VAT_ID_PATTERN v_clean
         then Inl (value_error invalid_vat_id_message)
         else Inr v_clean)"

definition vat_id_field :: "string \<Rightarrow> validation_error + string" where
  \<comment> \<open>\<open>vat_id: str = Field(..., min_length=1, max_length=20)\<close>: the length constraints are
      checked on the submitted string, then the field validator runs on it\<close>
  "vat_id_field v =
     (if length v < 1 then Inl string_too_short
      else if length v > 20 then Inl string_too_long
      else validate_vat_id v)"

section \<open>The request store (app/services/database.py)\<close>

text \<open>
  The four tables, each a list of rows in insertion order. The tables \<open>order_lines\<close> and
  \<open>status_history\<close> have an \<open>AUTOINCREMENT\<close> key and no row is ever deleted, so a row's key
  is its position and \<open>ORDER BY id\<close> is the order of the list. \<open>REAL\<close> columns only store and
  return their value. The cache stores \<open>json.dumps\<close> of the extracted data and reads it back
  with \<open>json.loads\<close>; the row holds the data itself.
\<close>

record order_line =
  description :: string
  unit_price :: real
  amount :: int
  unit :: string
  total_price :: real

record request_cols =
  requestor_name :: string
  title :: string
  vendor_name :: string
  vat_id :: string
  commodity_group_id :: string
  total_cost :: real
  department :: string

record request_data = request_cols +
  order_lines :: "order_line list"

record request_row = request_cols +
  row_id :: string
  row_status :: string
  row_created_at :: string

record order_line_row = order_line +
  line_request_id :: string

record status_entry =
  entry_status :: string
  timestamp :: string

record history_row = status_entry +
  history_request_id :: string

record cache_row =
  file_hash :: string
  cached_filename :: string
  extracted_data :: pydict
  cached_at :: string

record database =
  document_cache :: "cache_row list"
  procurement_requests :: "request_row list"
  order_lines_rows :: "order_line_row list"
  status_history_rows :: "history_row list"

text \<open>What \<open>get_request\<close> returns: the request with its status and history.\<close>

record request_record =
  rec_id :: string
  data :: request_data
  status :: string
  status_history :: "status_entry list"
  created_at :: string

definition init_database :: database where
  "init_database = \<lparr> document_cache = [], procurement_requests = [],
                      order_lines_rows = [], status_history_rows = [] \<rparr>"

definition get_cached_extraction :: "database \<Rightarrow> string \<Rightarrow> pydict option" where
  "get_cached_extraction db h =
     (case filter (\<lambda>r. file_hash r = h) (document_cache db) of
        [] \<Rightarrow> None
      | row # _ \<Rightarrow> Some (extracted_data row))"

definition cache_extraction :: "string \<Rightarrow> string \<Rightarrow> pydict \<Rightarrow> string \<Rightarrow> database \<Rightarrow> database" where
  \<comment> \<open>\<open>INSERT OR REPLACE\<close> on the primary key \<open>file_hash\<close>; the last argument but one is
      \<open>datetime.now().isoformat()\<close>\<close>
  "cache_extraction h name extracted now db =
     db \<lparr> document_cache :=
            filter (\<lambda>r. file_hash r \<noteq> h) (document_cache db)
            @ [\<lparr> file_hash = h, cached_filename = name, extracted_data = extracted,
                 cached_at = now \<rparr>] \<rparr>"

definition zero_pad :: "nat \<Rightarrow> string \<Rightarrow> string" where
  "zero_pad w s = replicate (w - length s) CHR ''0'' @ s"

definition format_request_id :: "nat \<Rightarrow> string" where
  \<comment> \<open>\<open>f"REQ-{n:04d}"\<close>\<close>
  "format_request_id n = ''REQ-'' @ zero_pad 4 (dec n)"

definition get_next_request_id :: "database \<Rightarrow> string" where
  "get_next_request_id db = format_request_id (length (procurement_requests db) + 1)"

definition lines_of :: "database \<Rightarrow> string \<Rightarrow> order_line list" where
  \<comment> \<open>\<open>SELECT * FROM order_lines WHERE request_id = ?\<close>\<close>
  "lines_of db request_id =
     map (\<lambda>line. \<lparr> description = description line, unit_price = unit_price line,
                    amount = amount line, unit = unit line, total_price = total_price line \<rparr>)
         (filter (\<lambda>line. line_request_id line = request_id) (order_lines_rows db))"

definition history_of :: "database \<Rightarrow> string \<Rightarrow> status_entry list" where
  \<comment> \<open>\<open>SELECT status, timestamp FROM status_history WHERE request_id = ? ORDER BY id\<close>\<close>
  "history_of db request_id =
     map (\<lambda>h. \<lparr> entry_status = entry_status h, timestamp = timestamp h \<rparr>)
         (filter (\<lambda>h. history_request_id h = request_id) (status_history_rows db))"

definition get_request :: "database \<Rightarrow> string \<Rightarrow> request_record option" where
  "get_request db request_id =
     (case filter (\<lambda>r. row_id r = request_id) (procurement_requests db) of
        [] \<Rightarrow> None
      | row # _ \<Rightarrow>
          Some \<lparr> rec_id = row_id row,
                 data = \<lparr> requestor_name = requestor_name row, title = title row,
                          vendor_name = vendor_name row, vat_id = vat_id row,
                          commodity_group_id = commodity_group_id row,
                          total_cost = total_cost row, department = department row,
                          order_lines = lines_of db request_id \<rparr>,
                 status = row_status row,
                 status_history = history_of db request_id,
                 created_at = row_created_at row \<rparr>)"

definition sqlite_integer :: "int \<Rightarrow> bool" where
  \<comment> \<open>the Python integers the \<open>sqlite3\<close> module binds to a statement parameter: those of
      64 bits, signed\<close>
  "sqlite_integer n = (- (2 ^ 63) \<le> n \<and> n < 2 ^ 63)"

definition create_request ::
  "request_data \<Rightarrow> string \<Rightarrow> database \<Rightarrow> (pyexc + request_record option) \<times> database" where
  \<comment> \<open>the second argument is \<open>datetime.now().isoformat()\<close>. An \<open>INSERT\<close> with a key that is
      already there raises; so does the \<open>INSERT\<close> of an order line whose \<open>amount\<close> is no
      64-bit integer (\<open>OverflowError\<close>). \<open>get_db\<close> commits only when its block ends without
      an exception, so a call that raises leaves the store as it was.\<close>
  "create_request request_data created_at_now db =
     (let request_id = get_next_request_id db
      in if request_id \<in> set (map row_id (procurement_requests db))
         then (Inl (PyException ''UNIQUE constraint failed: procurement_requests.id''), db)
         else if \<not> list_all (\<lambda>line. sqlite_integer (amount line)) (order_lines request_data)
         then (Inl (PyException ''Python int too large to convert to SQLite INTEGER''), db)
         else
           (let db' = db \<lparr>
                  procurement_requests := procurement_requests db
                    @ [\<lparr> requestor_name = requestor_name request_data,
                         title = title request_data,
                         vendor_name = vendor_name request_data,
                         vat_id = vat_id request_data,
                         commodity_group_id = commodity_group_id request_data,
                         total_cost = total_cost request_data,
                         department = department request_data,
                         row_id = request_id, row_status = ''Open'',
                         row_created_at = created_at_now \<rparr>],
                  order_lines_rows := order_lines_rows db
                    @ map (\<lambda>line. \<lparr> description = description line,
                                     unit_price = unit_price line, amount = amount line,
                                     unit = unit line, total_price = total_price line,
                                     line_request_id = request_id \<rparr>)
                          (order_lines request_data),
                  status_history_rows := status_history_rows db
                    @ [\<lparr> entry_status = ''Open'', timestamp = created_at_now,
                         history_request_id = request_id \<rparr>] \<rparr>
            in (Inr (get_request db' request_id), db')))"

definition update_request_status ::
  "string \<Rightarrow> string \<Rightarrow> string \<Rightarrow> database \<Rightarrow> request_record option \<times> database" where
  \<comment> \<open>the third argument is \<open>datetime.now().isoformat()\<close>\<close>
  "update_request_status request_id new_status now db =
     (if request_id \<notin> set (map row_id (procurement_requests db)) then (None, db)
      else
        (let db' = db \<lparr>
               procurement_requests :=
                 map (\<lambda>r. if row_id r = request_id then r \<lparr> row_status := new_status \<rparr> else r)
                     (procurement_requests db),
               status_history_rows := status_history_rows db
                 @ [\<lparr> entry_status = new_status, timestamp = now,
                      history_request_id = request_id \<rparr>] \<rparr>
         in (get_request db' request_id, db')))"

subsection \<open>The store as the requests change it\<close>

definition upload_request ::
  "env \<Rightarrow> upload \<Rightarrow> database \<Rightarrow> ((failure + pydict) \<times> event list) \<times> database" where
  \<comment> \<open>app/routes/ai.py does not import the database module: serving an upload leaves the
      store as it is\<close>
  "upload_request env file db = (extract_document_endpoint env file, db)"

datatype store_op =
    Create request_data string
  | Update_status string string string
  | Cache string string pydict string
  | Upload env upload

fun apply_op :: "store_op \<Rightarrow> database \<Rightarrow> database" where
  "apply_op (Create request_data now) db = snd (create_request request_data now db)"
| "apply_op (Update_status request_id new_status now) db =
     snd (update_request_status request_id new_status now db)"
| "apply_op (Cache h name extracted now) db = cache_extraction h name extracted now db"
| "apply_op (Upload env file) db = snd (upload_request env file db)"

inductive reachable :: "database \<Rightarrow> bool" where
  reachable_init: "reachable init_database"
| reachable_step: "reachable db \<Longrightarrow> reachable (apply_op op db)"

code_pred reachable .

section \<open>Notions the statements use\<close>

definition line_items :: "pydict \<Rightarrow> json list" where
  "line_items d = as_list (dict_get d ''order_lines'' (JStr []))"

definition field_value :: "pydict \<Rightarrow> string \<Rightarrow> json" where
  "field_value d field = dict_get d field (JStr [])"

text \<open>
  The form of a candidate value that the amended merge rule compares, written from the rule
  and not from the code: a value Python counts as false (\<open>None\<close>, \<open>False\<close>, a zero, an
  empty string, list or dict) has the empty form, every other value has its string form
  with the white space at both ends removed.
\<close>

definition counts_as_false :: "json \<Rightarrow> bool" where
  "counts_as_false v =
     (v = JNull \<or> v = JBool False \<or> v = JInt 0 \<or> v = JFloat ''0.0'' \<or> v = JFloat ''-0.0''
      \<or> v = JStr [] \<or> v = JList [] \<or> v = JDict [])"

definition trimmed_form :: "json \<Rightarrow> string" where
  "trimmed_form v = (if counts_as_false v then [] else strip (py_str v))"

definition field_empty :: "pydict \<Rightarrow> string \<Rightarrow> bool" where
  "field_empty d field = (strip (py_str (dict_get d field (JStr []))) = [])"

definition order_lines_empty :: "pydict \<Rightarrow> bool" where
  "order_lines_empty d = (\<not> truthy (dict_get d ''order_lines'' (JList [])))"

definition order_lines_nonempty :: "pydict \<Rightarrow> bool" where
  "order_lines_nonempty d =
     (case py_len (dict_get d ''order_lines'' (JList [])) of Inl e \<Rightarrow> False | Inr n \<Rightarrow> 0 < n)"

definition fails_completeness :: "pydict \<Rightarrow> bool" where
  "fails_completeness d =
     (field_empty d ''vat_id'' \<or> field_empty d ''vendor_name'' \<or> field_empty d ''department''
      \<or> field_empty d ''title'' \<or> order_lines_empty d)"

definition passes_completeness :: "pydict \<Rightarrow> bool" where
  "passes_completeness d =
     (\<not> field_empty d ''vat_id'' \<and> \<not> field_empty d ''vendor_name'' \<and> \<not> field_empty d ''department''
      \<and> \<not> field_empty d ''title'' \<and> order_lines_nonempty d)"

definition structural_candidate :: "env \<Rightarrow> string \<Rightarrow> pydict option" where
  "structural_candidate env pypdf_text = fst (pypdf_attempt env pypdf_text)"

definition ocr_path :: "env \<Rightarrow> byte list \<Rightarrow> pyexc + pydict" where
  "ocr_path env c =
     (case extract_text_with_ocr env c of Inl e \<Rightarrow> Inl e | Inr ocr_text \<Rightarrow> extract_document_ocr env ocr_text)"

definition accepted :: "env \<Rightarrow> upload \<Rightarrow> string \<Rightarrow> bool" where
  "accepted env file pypdf_text =
     (valid_filename (filename file) \<and> length (content file) \<le> MAX_PDF_SIZE_BYTES
      \<and> structural_text env (content file) = Inr pypdf_text)"

definition page_text :: "page \<Rightarrow> string" where
  "page_text p = (case p of Inr (Some s) \<Rightarrow> s | _ \<Rightarrow> [])"

definition page_returns :: "page \<Rightarrow> bool" where
  "page_returns p = (case p of Inl e \<Rightarrow> False | Inr t \<Rightarrow> True)"

definition example_upload :: upload where
  "example_upload = \<lparr> filename = Some ''offer.pdf'', content = [0x25, 0x50, 0x44, 0x46] \<rparr>"

definition example_record :: pydict where
  "example_record =
     [(''vendor_name'', JStr ''Foo GmbH''), (''vat_id'', JStr ''DE123456789''),
      (''department'', JStr ''IT''), (''title'', JStr ''Laptops''),
      (''order_lines'', JList [JDict [(''description'', JStr ''Laptop''), (''amount'', JInt 2)]]),
      (''total_cost'', JFloat ''2380.0'')]"

definition broken_page_env :: env where
  "broken_page_env = \<lparr>
     pdf_reader = (\<lambda>c. Inr [Inr (Some ''Offer 2024-17''), Inl (PyException ''malformed content stream'')]),
     fitz_open = (\<lambda>c. Inr [Inr ''Offer 2024-17'', Inr ''Total 2380.00'']),
     extract_document_pypdf = (\<lambda>t. Inr example_record),
     extract_document_ocr = (\<lambda>t. Inr example_record) \<rparr>"

definition sparse_record :: pydict where
  "sparse_record =
     [(''vendor_name'', JStr ''Foo GmbH''), (''vat_id'', JStr []), (''department'', JNull),
      (''title'', JStr ''Laptops''), (''order_lines'', JList [])]"

definition digital_env :: env where
  "digital_env = \<lparr>
     pdf_reader = (\<lambda>c. Inr [Inr (Some ''Offer 2024-17'')]),
     fitz_open = (\<lambda>c. Inr [Inr ''Offer 2024-17'']),
     extract_document_pypdf = (\<lambda>t. Inr example_record),
     extract_document_ocr = (\<lambda>t. Inr sparse_record) \<rparr>"

definition scanned_env :: env where
  "scanned_env = \<lparr>
     pdf_reader = (\<lambda>c. Inr [Inr None, Inr (Some '' '')]),
     fitz_open = (\<lambda>c. Inr [Inr ''Offer 2024-17'', Inr ''Total 2380.00'']),
     extract_document_pypdf = (\<lambda>t. Inr example_record),
     extract_document_ocr = (\<lambda>t. Inr sparse_record) \<rparr>"

definition ocr_down_env :: env where
  "ocr_down_env = \<lparr>
     pdf_reader = (\<lambda>c. Inr [Inr (Some ''Offer 2024-17'')]),
     fitz_open = (\<lambda>c. Inl (PyException ''no such file'')),
     extract_document_pypdf = (\<lambda>t. Inr sparse_record),
     extract_document_ocr = (\<lambda>t. Inr example_record) \<rparr>"

definition unreadable_env :: env where
  "unreadable_env = \<lparr>
     pdf_reader = (\<lambda>c. Inr [Inr None]),
     fitz_open = (\<lambda>c. Inr [Inl (PyException ''model unavailable'')]),
     extract_document_pypdf = (\<lambda>t. Inr example_record),
     extract_document_ocr = (\<lambda>t. Inr example_record) \<rparr>"

definition null_vat_record :: pydict where
  "null_vat_record =
     [(''vendor_name'', JStr ''Foo GmbH''), (''vat_id'', JNull),
      (''department'', JStr ''IT''), (''title'', JStr ''Laptops''),
      (''order_lines'', JList [JDict [(''description'', JStr ''Laptop''), (''amount'', JInt 2)]]),
      (''total_cost'', JFloat ''2380.0'')]"

definition blank_vat_record :: pydict where
  "blank_vat_record =
     [(''vendor_name'', JStr ''Foo GmbH''), (''vat_id'', JStr []),
      (''department'', JStr ''IT''), (''title'', JStr ''Laptops''),
      (''order_lines'', JList [JDict [(''description'', JStr ''Laptop''), (''amount'', JInt 2)]]),
      (''total_cost'', JFloat ''2380.0'')]"

definition counted_lines_record :: pydict where
  "counted_lines_record =
     [(''vendor_name'', JStr ''Foo GmbH''), (''vat_id'', JStr ''DE123456789''),
      (''department'', JStr ''IT''), (''title'', JStr ''Laptops''),
      (''order_lines'', JInt 3), (''total_cost'', JFloat ''2380.0'')]"

definition structural_env :: "pydict \<Rightarrow> env" where
  \<comment> \<open>a PDF with a text layer on which the field extraction gives the record \<open>A\<close>, and on
      whose OCR text it gives the complete record\<close>
  "structural_env A = \<lparr>
     pdf_reader = (\<lambda>c. Inr [Inr (Some ''Offer 2024-17'')]),
     fitz_open = (\<lambda>c. Inr [Inr ''Offer 2024-17 VAT DE123456789'']),
     extract_document_pypdf = (\<lambda>t. Inr A),
     extract_document_ocr = (\<lambda>t. Inr example_record) \<rparr>"

definition is_AZ :: "char \<Rightarrow> bool" where
  "is_AZ c = (65 \<le> (of_char c :: nat) \<and> (of_char c :: nat) \<le> 90)"

definition is_digit :: "char \<Rightarrow> bool" where
  "is_digit c = (48 \<le> (of_char c :: nat) \<and> (of_char c :: nat) \<le> 57)"

definition eu_vat :: "string \<Rightarrow> bool" where
  \<comment> \<open>a two-letter country code followed by 2 to 13 letters or digits\<close>
  "eu_vat s = (4 \<le> length s \<and> length s \<le> 15 \<and> list_all is_AZ (take 2 s)
               \<and> list_all (\<lambda>c. is_digit c \<or> is_AZ c) (drop 2 s))"

definition us_ein :: "string \<Rightarrow> bool" where
  \<comment> \<open>NN-NNNNNNN\<close>
  "us_ein s = (length s = 10 \<and> list_all is_digit (take 2 s) \<and> s ! 2 = CHR ''-''
               \<and> list_all is_digit (drop 3 s))"

definition numeric_id :: "string \<Rightarrow> bool" where
  \<comment> \<open>9 to 12 digits\<close>
  "numeric_id s = (9 \<le> length s \<and> length s \<le> 12 \<and> list_all is_digit s)"

definition vat_format :: "string \<Rightarrow> bool" where
  "vat_format s = (eu_vat s \<or> us_ein s \<or> numeric_id s)"

definition normalize_vat :: "string \<Rightarrow> string" where
  "normalize_vat v = replace_spaces (upper (strip v))"

definition matches :: "rexp \<Rightarrow> string \<Rightarrow> bool" where
  \<comment> \<open>the whole of \<open>p\<close> matches \<open>r\<close>\<close>
  "matches r p = ([] \<in> set (residuals r p))"

definition request_ids :: "database \<Rightarrow> string set" where
  "request_ids db = set (map row_id (procurement_requests db))"

definition rows_of_hash :: "database \<Rightarrow> string \<Rightarrow> cache_row list" where
  "rows_of_hash db h = filter (\<lambda>r. file_hash r = h) (document_cache db)"

definition history_consistent :: "database \<Rightarrow> bool" where
  \<comment> \<open>every stored request has a history that starts with its creation and ends with its
      current status\<close>
  "history_consistent db =
     (\<forall>r \<in> set (procurement_requests db).
        history_of db (row_id r) \<noteq> []
        \<and> hd (history_of db (row_id r))
            = \<lparr> entry_status = ''Open'', timestamp = row_created_at r \<rparr>
        \<and> entry_status (last (history_of db (row_id r))) = row_status r)"

definition store_inv :: "database \<Rightarrow> bool" where
  "store_inv db =
     ((\<forall>i < length (procurement_requests db).
          row_id (procurement_requests db ! i) = format_request_id (Suc i))
      \<and> (\<forall>l \<in> set (order_lines_rows db). line_request_id l \<in> request_ids db)
      \<and> (\<forall>h \<in> set (status_history_rows db). history_request_id h \<in> request_ids db)
      \<and> history_consistent db
      \<and> distinct (map file_hash (document_cache db)))"

definition example_request :: request_data where
  "example_request = \<lparr> requestor_name = ''Ada'', title = ''Laptops'', vendor_name = ''Foo GmbH'',
     vat_id = ''DE123456789'', commodity_group_id = ''031'', total_cost = 2380,
     department = ''IT'',
     order_lines = [\<lparr> description = ''Laptop'', unit_price = 1000, amount = 2,
                      unit = ''pcs'', total_price = 2000 \<rparr>] \<rparr>"

definition storable :: "request_data \<Rightarrow> bool" where
  \<comment> \<open>every order line's amount is an integer the database binding takes\<close>
  "storable d = list_all (\<lambda>line. sqlite_integer (amount line)) (order_lines d)"

definition oversized_request :: request_data where
  "oversized_request = example_request \<lparr> order_lines :=
     [\<lparr> description = ''Laptop'', unit_price = 1000, amount = 2 ^ 63,
        unit = ''pcs'', total_price = 2000 \<rparr>] \<rparr>"

definition digit_value :: "char \<Rightarrow> nat" where
  "digit_value c = of_char c - 48"

definition undec :: "string \<Rightarrow> nat" where
  "undec s = foldl (\<lambda>a c. 10 * a + digit_value c) 0 s"

definition cached_once :: database where
  "cached_once = cache_extraction ''9f86d081'' ''offer.pdf'' example_record ''2024-05-01T10:00:00'' init_database"

section \<open>Properties\<close>

subsection \<open>The merge engine\<close>

lemma map_of_tabulate:
  "map_of (map (\<lambda>k. (k, g k)) ks) k = (if k \<in> set ks then Some (g k) else None)"
  by (induction ks) auto

lemma set_all_fields: "set (all_fields A B) = fst ` set A \<union> fst ` set B"
  by (simp add: all_fields_def dict_keys_def)

lemma map_of_merge_results:
  "map_of (merge_results A B) field =
     (if field \<in> fst ` set A \<union> fst ` set B
      then Some (merge_field field (field_value A field) (field_value B field)) else None)"
  unfolding merge_results_def field_value_def
  by (simp only: map_of_tabulate set_all_fields)

lemma field_value_absent: "field \<notin> fst ` set d \<Longrightarrow> field_value d field = JStr []"
  by (simp add: field_value_def dict_get_def map_of_eq_None_iff[THEN iffD2])

lemma field_value_merge_results:
  "field_value (merge_results A B) field =
     (if field \<in> fst ` set A \<union> fst ` set B
      then merge_field field (field_value A field) (field_value B field) else JStr [])"
  by (simp add: field_value_def[of "merge_results A B"] dict_get_def map_of_merge_results)

lemma merge_field_absent: "field \<noteq> ''order_lines'' \<Longrightarrow> merge_field field (JStr []) (JStr []) = JStr []"
  by (simp add: merge_field_def str_or_empty_def)

lemma field_value_merged:
  "field \<noteq> ''order_lines'' \<Longrightarrow>
   field_value (merge_results A B) field = merge_field field (field_value A field) (field_value B field)"
  by (auto simp: field_value_merge_results field_value_absent merge_field_absent)

lemma line_items_merged:
  "line_items (merge_results A B) =
     (if length (line_items A) \<ge> length (line_items B) then line_items A else line_items B)"
proof (cases "''order_lines'' \<in> fst ` set A \<union> fst ` set B")
  case True
  then show ?thesis
    using field_value_merge_results[of A B "''order_lines''"]
    by (simp add: line_items_def field_value_def merge_field_def as_list_def Let_def)
next
  case False
  then have "field_value A ''order_lines'' = JStr []" "field_value B ''order_lines'' = JStr []"
    by (simp_all add: field_value_absent)
  with False show ?thesis
    using field_value_merge_results[of A B "''order_lines''"]
    by (simp add: line_items_def field_value_def as_list_def)
qed

lemma map_of_merged_order_lines:
  "''order_lines'' \<in> fst ` set A \<union> fst ` set B \<Longrightarrow>
   map_of (merge_results A B) ''order_lines'' =
     Some (JList (if length (line_items A) \<ge> length (line_items B)
                  then line_items A else line_items B))"
  by (simp add: map_of_merge_results merge_field_def Let_def line_items_def field_value_def)

text \<open>
  C2. For every pair of candidates, the merged \<open>order_lines\<close> is the structural candidate's
  line-item list when that list is at least as long as the OCR candidate's, and the OCR
  candidate's list otherwise; equal counts give the structural list. A candidate's line-item
  list is its \<open>order_lines\<close> value when that is a list and the empty list otherwise, as the
  merge reads it. The merged record has the key whenever one of the candidates has it.
\<close>
theorem merge_order_lines:
  "(''order_lines'' \<in> set (dict_keys A) \<union> set (dict_keys B) \<longrightarrow>
      map_of (merge_results A B) ''order_lines'' =
        Some (JList (if length (line_items A) \<ge> length (line_items B)
                     then line_items A else line_items B)))
   \<and> line_items (merge_results A B) =
        (if length (line_items A) \<ge> length (line_items B) then line_items A else line_items B)"
  using map_of_merged_order_lines[of A B] line_items_merged[of A B]
  by (simp add: dict_keys_def)

theorem merge_order_lines_witness:
  "''order_lines'' \<in> set (dict_keys [(''order_lines'', JList [JInt 1, JInt 2])])
                      \<union> set (dict_keys [(''order_lines'', JList [JInt 3, JInt 4])])
   \<and> map_of (merge_results [(''order_lines'', JList [JInt 1, JInt 2])]
                            [(''order_lines'', JList [JInt 3, JInt 4])]) ''order_lines''
       = Some (JList [JInt 1, JInt 2])
   \<and> line_items (merge_results [(''order_lines'', JList [JInt 1, JInt 2])]
                                [(''order_lines'', JList [JInt 3])])
       = [JInt 1, JInt 2]
   \<and> line_items (merge_results [(''order_lines'', JList [JInt 1])]
                                [(''order_lines'', JList [JInt 3, JInt 4])])
       = [JInt 3, JInt 4]"
proof -
  have k: "''order_lines'' \<in> set (dict_keys [(''order_lines'', JList [JInt 1, JInt 2])])
                      \<union> set (dict_keys [(''order_lines'', JList [JInt 3, JInt 4])])"
    by (simp add: dict_keys_def)
  have 1: "line_items [(''order_lines'', JList xs)] = xs" for xs
    by (simp add: line_items_def dict_get_def as_list_def)
  from k merge_order_lines[of "[(''order_lines'', JList [JInt 1, JInt 2])]"
            "[(''order_lines'', JList [JInt 3, JInt 4])]"]
  have a: "map_of (merge_results [(''order_lines'', JList [JInt 1, JInt 2])]
                            [(''order_lines'', JList [JInt 3, JInt 4])]) ''order_lines''
       = Some (JList [JInt 1, JInt 2])"
    by (simp add: 1)
  from merge_order_lines[of "[(''order_lines'', JList [JInt 1, JInt 2])]"
            "[(''order_lines'', JList [JInt 3])]"]
  have b: "line_items (merge_results [(''order_lines'', JList [JInt 1, JInt 2])]
                                [(''order_lines'', JList [JInt 3])]) = [JInt 1, JInt 2]"
    by (simp add: 1)
  from merge_order_lines[of "[(''order_lines'', JList [JInt 1])]"
            "[(''order_lines'', JList [JInt 3, JInt 4])]"]
  have c: "line_items (merge_results [(''order_lines'', JList [JInt 1])]
                                [(''order_lines'', JList [JInt 3, JInt 4])]) = [JInt 3, JInt 4]"
    by (simp add: 1)
  from k a b c show ?thesis by blast
qed

lemma map_of_merged_field:
  "field \<in> fst ` set A \<union> fst ` set B \<Longrightarrow>
   map_of (merge_results A B) field = Some (merge_field field (field_value A field) (field_value B field))"
  by (simp add: map_of_merge_results)



lemma merge_example:
  "merge_results [(''order_lines'', JList [x, y]), (''vendor_name'', JStr []), (''title'', JStr ''ACME Corp'')]
                 [(''order_lines'', JList [x]), (''vendor_name'', JStr ''Foo GmbH''), (''title'', JStr ''A'')]
   = [(''order_lines'', JList [x, y]), (''vendor_name'', JStr ''Foo GmbH''), (''title'', JStr ''ACME Corp'')]"
  by (simp add: merge_results_def all_fields_def dict_keys_def merge_field_def dict_get_def
      str_or_empty_def as_list_def strip_def is_space_def py_str_def)

lemma str_or_empty_trimmed_form: "str_or_empty v = trimmed_form v"
  by (cases v) (auto simp: str_or_empty_def trimmed_form_def counts_as_false_def)

lemma merge_field_other:
  assumes "field \<noteq> ''order_lines''" "field \<noteq> ''vendor_name''" "field \<noteq> ''department''"
  shows "merge_field field a b =
     (if trimmed_form a = [] \<and> trimmed_form b \<noteq> [] then b
      else if trimmed_form b = [] \<and> trimmed_form a \<noteq> [] then a
      else if length (trimmed_form b) > length (trimmed_form a) then b
      else a)"
  using assms by (simp add: merge_field_def Let_def str_or_empty_trimmed_form)

text \<open>
  C4, as amended. For every field other than \<open>order_lines\<close>, \<open>vendor_name\<close> and \<open>department\<close>,
  with the form of a value being empty when Python counts the value as false and its
  trimmed string form otherwise: when only one candidate's form is not empty, that
  candidate's value is taken; when both are not empty the strictly longer one wins; on equal
  length, both empty included, the structural candidate's value is taken. So the merged
  value is the OCR candidate's exactly when its form is strictly longer. On the two
  candidates of the specification's example the merge gives \<open>order_lines = [x, y]\<close>,
  \<open>vendor_name = Foo GmbH\<close> and \<open>title = ACME Corp\<close>.
\<close>
theorem merge_other_fields:
  assumes "field \<noteq> ''order_lines''" "field \<noteq> ''vendor_name''" "field \<noteq> ''department''"
  shows "(trimmed_form (field_value A field) = [] \<and> trimmed_form (field_value B field) \<noteq> []
            \<longrightarrow> field_value (merge_results A B) field = field_value B field)
       \<and> (trimmed_form (field_value B field) = [] \<and> trimmed_form (field_value A field) \<noteq> []
            \<longrightarrow> field_value (merge_results A B) field = field_value A field)
       \<and> (trimmed_form (field_value A field) \<noteq> [] \<and> trimmed_form (field_value B field) \<noteq> []
            \<and> length (trimmed_form (field_value B field)) > length (trimmed_form (field_value A field))
            \<longrightarrow> field_value (merge_results A B) field = field_value B field)
       \<and> (trimmed_form (field_value A field) \<noteq> [] \<and> trimmed_form (field_value B field) \<noteq> []
            \<and> length (trimmed_form (field_value A field)) > length (trimmed_form (field_value B field))
            \<longrightarrow> field_value (merge_results A B) field = field_value A field)
       \<and> (length (trimmed_form (field_value A field)) = length (trimmed_form (field_value B field))
            \<longrightarrow> field_value (merge_results A B) field = field_value A field)
       \<and> field_value (merge_results A B) field
           = (if length (trimmed_form (field_value B field)) > length (trimmed_form (field_value A field))
              then field_value B field else field_value A field)
       \<and> (field \<in> set (dict_keys A) \<union> set (dict_keys B) \<longrightarrow>
            map_of (merge_results A B) field = Some (field_value (merge_results A B) field))
       \<and> merge_results
           [(''order_lines'', JList [x, y]), (''vendor_name'', JStr []), (''title'', JStr ''ACME Corp'')]
           [(''order_lines'', JList [x]), (''vendor_name'', JStr ''Foo GmbH''), (''title'', JStr ''A'')]
         = [(''order_lines'', JList [x, y]), (''vendor_name'', JStr ''Foo GmbH''),
            (''title'', JStr ''ACME Corp'')]"
proof -
  have m: "field_value (merge_results A B) field
             = merge_field field (field_value A field) (field_value B field)"
    using assms(1) by (rule field_value_merged)
  have k: "field \<in> set (dict_keys A) \<union> set (dict_keys B) \<longrightarrow>
            map_of (merge_results A B) field = Some (field_value (merge_results A B) field)"
    using map_of_merged_field[of field A B] by (simp add: m dict_keys_def)
  show ?thesis
    unfolding m using k[unfolded m] merge_example[of x y]
    by (auto simp add: merge_field_other[OF assms])
qed

theorem merge_other_fields_witness:
  "field_value (merge_results
       [(''vat_id'', JStr ''DE1''), (''title'', JStr ''  Offer  ''), (''total_cost'', JFloat ''0.0''),
        (''currency'', JStr ''EUR''), (''delivery'', JStr ''x''), (''reference'', JNull)]
       [(''vat_id'', JStr ''DE123456789''), (''title'', JStr ''Laptops''), (''total_cost'', JInt 5),
        (''currency'', JStr ''USD''), (''delivery'', JStr ''   ''), (''reference'', JStr ''A'')])
     ''vat_id'' = JStr ''DE123456789''
   \<and> field_value (merge_results
       [(''vat_id'', JStr ''DE1''), (''title'', JStr ''  Offer  ''), (''total_cost'', JFloat ''0.0''),
        (''currency'', JStr ''EUR''), (''delivery'', JStr ''x''), (''reference'', JNull)]
       [(''vat_id'', JStr ''DE123456789''), (''title'', JStr ''Laptops''), (''total_cost'', JInt 5),
        (''currency'', JStr ''USD''), (''delivery'', JStr ''   ''), (''reference'', JStr ''A'')])
     ''title'' = JStr ''Laptops''
   \<and> field_value (merge_results
       [(''vat_id'', JStr ''DE1''), (''title'', JStr ''  Offer  ''), (''total_cost'', JFloat ''0.0''),
        (''currency'', JStr ''EUR''), (''delivery'', JStr ''x''), (''reference'', JNull)]
       [(''vat_id'', JStr ''DE123456789''), (''title'', JStr ''Laptops''), (''total_cost'', JInt 5),
        (''currency'', JStr ''USD''), (''delivery'', JStr ''   ''), (''reference'', JStr ''A'')])
     ''total_cost'' = JInt 5
   \<and> field_value (merge_results
       [(''vat_id'', JStr ''DE1''), (''title'', JStr ''  Offer  ''), (''total_cost'', JFloat ''0.0''),
        (''currency'', JStr ''EUR''), (''delivery'', JStr ''x''), (''reference'', JNull)]
       [(''vat_id'', JStr ''DE123456789''), (''title'', JStr ''Laptops''), (''total_cost'', JInt 5),
        (''currency'', JStr ''USD''), (''delivery'', JStr ''   ''), (''reference'', JStr ''A'')])
     ''currency'' = JStr ''EUR''
   \<and> field_value (merge_results
       [(''vat_id'', JStr ''DE1''), (''title'', JStr ''  Offer  ''), (''total_cost'', JFloat ''0.0''),
        (''currency'', JStr ''EUR''), (''delivery'', JStr ''x''), (''reference'', JNull)]
       [(''vat_id'', JStr ''DE123456789''), (''title'', JStr ''Laptops''), (''total_cost'', JInt 5),
        (''currency'', JStr ''USD''), (''delivery'', JStr ''   ''), (''reference'', JStr ''A'')])
     ''delivery'' = JStr ''x''
   \<and> field_value (merge_results
       [(''vat_id'', JStr ''DE1''), (''title'', JStr ''  Offer  ''), (''total_cost'', JFloat ''0.0''),
        (''currency'', JStr ''EUR''), (''delivery'', JStr ''x''), (''reference'', JNull)]
       [(''vat_id'', JStr ''DE123456789''), (''title'', JStr ''Laptops''), (''total_cost'', JInt 5),
        (''currency'', JStr ''USD''), (''delivery'', JStr ''   ''), (''reference'', JStr ''A'')])
     ''reference'' = JStr ''A''"
proof -
  let ?A = "[(''vat_id'', JStr ''DE1''), (''title'', JStr ''  Offer  ''), (''total_cost'', JFloat ''0.0''),
        (''currency'', JStr ''EUR''), (''delivery'', JStr ''x''), (''reference'', JNull)]"
  let ?B = "[(''vat_id'', JStr ''DE123456789''), (''title'', JStr ''Laptops''), (''total_cost'', JInt 5),
        (''currency'', JStr ''USD''), (''delivery'', JStr ''   ''), (''reference'', JStr ''A'')]"
  note ev = field_value_def dict_get_def trimmed_form_def counts_as_false_def strip_def
    is_space_def py_str_def
  have 1: "field_value (merge_results ?A ?B) ''vat_id'' = JStr ''DE123456789''"
    using merge_other_fields[of "''vat_id''" ?A ?B] by (simp add: ev)
  have 2: "field_value (merge_results ?A ?B) ''title'' = JStr ''Laptops''"
    using merge_other_fields[of "''title''" ?A ?B] by (simp add: ev)
  have 3: "field_value (merge_results ?A ?B) ''total_cost'' = JInt 5"
    using merge_other_fields[of "''total_cost''" ?A ?B]
    by (simp add: ev str_int_def dec.simps)
  have 4: "field_value (merge_results ?A ?B) ''currency'' = JStr ''EUR''"
    using merge_other_fields[of "''currency''" ?A ?B] by (simp add: ev)
  have 5: "field_value (merge_results ?A ?B) ''delivery'' = JStr ''x''"
    using merge_other_fields[of "''delivery''" ?A ?B] by (simp add: ev)
  have 6: "field_value (merge_results ?A ?B) ''reference'' = JStr ''A''"
    using merge_other_fields[of "''reference''" ?A ?B] by (simp add: ev)
  from 1 2 3 4 5 6 show ?thesis by blast
qed

text \<open>
  C4 as stated fails for a value that Python counts as false and that prints as a non-empty
  text. The structural \<open>total_cost\<close> \<open>0.0\<close> has the trimmed string form \<open>0.0\<close>, the OCR
  \<open>total_cost\<close> \<open>5\<close> has the form \<open>5\<close>: both are non-empty and the structural one is strictly
  longer, yet the merged value is the OCR candidate's.
\<close>
theorem zero_total_cost_yields_to_ocr:
  "strip (py_str (JFloat ''0.0'')) = ''0.0''
   \<and> strip (py_str (JInt 5)) = ''5''
   \<and> merge_results [(''total_cost'', JFloat ''0.0'')] [(''total_cost'', JInt 5)]
       = [(''total_cost'', JInt 5)]
   \<and> field_value (merge_results [(''total_cost'', JFloat ''0.0'')] [(''total_cost'', JInt 5)])
         ''total_cost'' = JInt 5"
  by (simp add: merge_results_def all_fields_def dict_keys_def merge_field_def dict_get_def
      field_value_def str_or_empty_def strip_def is_space_def py_str_def str_int_def dec.simps)

subsection \<open>Orchestration and the completeness check\<close>

lemma empty_fails: "fails_completeness []"
  by (simp add: fails_completeness_def field_empty_def dict_get_def py_str_def strip_def)

lemma truthy_len: "truthy v \<Longrightarrow> py_len v = Inr n \<Longrightarrow> 0 < n"
  by (cases v) (auto simp: py_len_def)

lemma nonempty_not_empty: "order_lines_nonempty d \<Longrightarrow> \<not> order_lines_empty d"
  by (cases "dict_get d ''order_lines'' (JList [])")
     (auto simp: order_lines_nonempty_def order_lines_empty_def py_len_def)

lemma passes_not_fails: "passes_completeness d \<Longrightarrow> \<not> fails_completeness d"
  by (auto simp: passes_completeness_def fails_completeness_def dest: nonempty_not_empty)

lemma passes_nonempty: "passes_completeness d \<Longrightarrow> d \<noteq> []"
  using empty_fails passes_not_fails by blast

lemma gate_needs_ocr:
  "fst (quality_gate r) = Inr True \<longleftrightarrow> (\<not> has_result r \<or> fails_completeness (the r))"
proof (cases "has_result r")
  case False
  then show ?thesis by (simp add: quality_gate_def)
next
  case True
  show ?thesis
  proof (cases "truthy (dict_get (the r) ''order_lines'' (JList []))")
    case False
    with True show ?thesis
      by (simp add: quality_gate_def Let_def fails_completeness_def field_empty_def order_lines_empty_def)
  next
    case t: True
    show ?thesis
    proof (cases "py_len (dict_get (the r) ''order_lines'' (JList []))")
      case (Inl e)
      with True t show ?thesis
        by (simp add: quality_gate_def Let_def fails_completeness_def field_empty_def order_lines_empty_def)
    next
      case (Inr n)
      with truthy_len[OF t Inr] True t show ?thesis
        by (simp add: quality_gate_def Let_def fails_completeness_def field_empty_def order_lines_empty_def)
    qed
  qed
qed

lemma gate_passes:
  assumes "passes_completeness d"
  shows "quality_gate (Some d) = (Inr False, [])"
proof -
  from assms obtain n where n: "py_len (dict_get d ''order_lines'' (JList [])) = Inr n" "0 < n"
    by (auto simp: passes_completeness_def order_lines_nonempty_def split: sum.splits)
  from assms have t: "truthy (dict_get d ''order_lines'' (JList []))"
    using nonempty_not_empty by (auto simp: passes_completeness_def order_lines_empty_def)
  from assms passes_nonempty[OF assms] n t show ?thesis
    by (simp add: quality_gate_def has_result_def Let_def passes_completeness_def field_empty_def)
qed

lemma gate_trace: "\<not> ocr_invoked (snd (quality_gate r))"
  by (simp add: quality_gate_def ocr_invoked_def Let_def split: sum.splits)

lemma pypdf_trace: "\<not> ocr_invoked (snd (pypdf_attempt env t))"
  by (simp add: pypdf_attempt_def ocr_invoked_def split: sum.splits)

lemma select_trace: "\<not> ocr_invoked (snd (select_result a b))"
  by (simp add: select_result_def ocr_invoked_def Let_def)

lemma ocr_trace: "ocr_invoked (snd (ocr_attempt env c r))"
  by (simp add: ocr_attempt_def ocr_invoked_def Let_def split: sum.splits)

lemma ocr_invoked_append [simp]: "ocr_invoked (xs @ ys) \<longleftrightarrow> ocr_invoked xs \<or> ocr_invoked ys"
  by (auto simp: ocr_invoked_def)

lemma ocr_invoked_Cons [simp]:
  "ocr_invoked (x # xs) \<longleftrightarrow> x = Call_extract_text_with_ocr \<or> ocr_invoked xs"
  by (auto simp: ocr_invoked_def)

lemma ocr_invoked_Nil [simp]: "\<not> ocr_invoked []"
  by (simp add: ocr_invoked_def)

text \<open>The endpoint after validation and structural text extraction, one case per outcome of the completeness check.\<close>

lemma endpoint_gate_raises:
  assumes "accepted env file t" "fst (quality_gate (structural_candidate env t)) = Inl e"
  shows "fst (extract_document_endpoint env file) = Inl (Unhandled e)"
    and "\<not> ocr_invoked (snd (extract_document_endpoint env file))"
  using assms gate_trace[of "fst (pypdf_attempt env t)"] pypdf_trace[of env t]
  by (simp_all add: accepted_def extract_document_endpoint_def structural_candidate_def Let_def)

lemma endpoint_without_ocr:
  assumes "accepted env file t" "fst (quality_gate (structural_candidate env t)) = Inr False"
  shows "fst (extract_document_endpoint env file) = fst (select_result (structural_candidate env t) None)"
    and "\<not> ocr_invoked (snd (extract_document_endpoint env file))"
  using assms gate_trace[of "fst (pypdf_attempt env t)"] pypdf_trace[of env t]
    select_trace[of "fst (pypdf_attempt env t)" None]
  by (simp_all add: accepted_def extract_document_endpoint_def structural_candidate_def Let_def)

lemma endpoint_with_ocr:
  assumes "accepted env file t" "fst (quality_gate (structural_candidate env t)) = Inr True"
  shows "fst (extract_document_endpoint env file) =
           (case fst (ocr_attempt env (content file) (structural_candidate env t)) of
              Inl f \<Rightarrow> Inl f
            | Inr ocr_result \<Rightarrow> fst (select_result (structural_candidate env t) ocr_result))"
    and "ocr_invoked (snd (extract_document_endpoint env file))"
    and "set (snd (ocr_attempt env (content file) (structural_candidate env t)))
           \<subseteq> set (snd (extract_document_endpoint env file))"
  using assms ocr_trace[of env "content file" "fst (pypdf_attempt env t)"]
  by (auto simp add: accepted_def extract_document_endpoint_def structural_candidate_def Let_def
      split: sum.splits)

lemma ocr_invoked_iff_gate:
  assumes "accepted env file t"
  shows "ocr_invoked (snd (extract_document_endpoint env file))
           \<longleftrightarrow> fst (quality_gate (structural_candidate env t)) = Inr True"
proof (cases "fst (quality_gate (structural_candidate env t))")
  case (Inl e)
  with endpoint_gate_raises(2)[OF assms Inl] show ?thesis by simp
next
  case (Inr b)
  show ?thesis
  proof (cases b)
    case True
    with Inr endpoint_with_ocr(2)[OF assms] show ?thesis by simp
  next
    case False
    with Inr endpoint_without_ocr(2)[OF assms] show ?thesis by simp
  qed
qed

lemma structural_candidate_cases:
  "structural_candidate env t =
     (if strip t = [] then None
      else case extract_document_pypdf env t of Inl e \<Rightarrow> None | Inr A \<Rightarrow> Some A)"
  by (simp add: structural_candidate_def pypdf_attempt_def split: sum.splits)

lemma select_only_pypdf: "A \<noteq> [] \<Longrightarrow> \<not> has_result b \<Longrightarrow> fst (select_result (Some A) b) = Inr A"
  by (simp add: select_result_def has_result_def)

lemma select_only_ocr: "B \<noteq> [] \<Longrightarrow> \<not> has_result a \<Longrightarrow> fst (select_result a (Some B)) = Inr B"
  by (simp add: select_result_def has_result_def)

lemma select_both:
  "A \<noteq> [] \<Longrightarrow> B \<noteq> [] \<Longrightarrow> fst (select_result (Some A) (Some B)) = Inr (merge_results A B)"
  by (simp add: select_result_def has_result_def next_result_def Let_def)

lemma select_none:
  "\<not> has_result a \<Longrightarrow> \<not> has_result b \<Longrightarrow>
   fst (select_result a b) = Inl (HTTPException 400 ''Could not extract data from PDF'')"
  by (simp add: select_result_def)

text \<open>
  What the endpoint does with the completeness check as the code computes it, that is with
  \<open>str()\<close> of each of the four text fields: for every upload that passes validation and
  whose structural text is \<open>pypdf_text\<close>, the OCR extractor is called if and only if the
  structural text is blank, or the field extraction on it failed, or it gave a candidate
  that fails the check; a candidate that passes is returned as it is, without OCR.
\<close>
lemma ocr_invoked_iff_code_gate:
  assumes "accepted env file pypdf_text"
  shows "(ocr_invoked (snd (extract_document_endpoint env file)) \<longleftrightarrow>
            strip pypdf_text = []
            \<or> (\<exists>e. extract_document_pypdf env pypdf_text = Inl e)
            \<or> (\<exists>A. extract_document_pypdf env pypdf_text = Inr A \<and> fails_completeness A))
       \<and> (\<forall>A. strip pypdf_text \<noteq> [] \<and> extract_document_pypdf env pypdf_text = Inr A
                \<and> passes_completeness A
              \<longrightarrow> fst (extract_document_endpoint env file) = Inr A
                  \<and> \<not> ocr_invoked (snd (extract_document_endpoint env file)))"
proof -
  have iff: "fst (quality_gate (structural_candidate env pypdf_text)) = Inr True \<longleftrightarrow>
            strip pypdf_text = []
            \<or> (\<exists>e. extract_document_pypdf env pypdf_text = Inl e)
            \<or> (\<exists>A. extract_document_pypdf env pypdf_text = Inr A \<and> fails_completeness A)"
    unfolding gate_needs_ocr structural_candidate_cases
    using empty_fails by (auto simp: has_result_def split: sum.splits)
  have pass: "fst (extract_document_endpoint env file) = Inr A
                  \<and> \<not> ocr_invoked (snd (extract_document_endpoint env file))"
    if a: "strip pypdf_text \<noteq> []" "extract_document_pypdf env pypdf_text = Inr A"
          "passes_completeness A" for A
  proof -
    from a have c: "structural_candidate env pypdf_text = Some A"
      by (simp add: structural_candidate_cases)
    with a(3) have g: "fst (quality_gate (structural_candidate env pypdf_text)) = Inr False"
      by (simp add: gate_passes)
    from endpoint_without_ocr[OF assms g] c passes_nonempty[OF a(3)] show ?thesis
      by (simp add: select_only_pypdf has_result_def)
  qed
  from iff pass show ?thesis
    unfolding ocr_invoked_iff_gate[OF assms] by blast
qed

lemma pypdf_pages_returns:
  "\<forall>p\<in>set pages. page_returns p \<Longrightarrow>
   pypdf_pages pages acc = Inr (acc @ concat (map page_text pages))"
proof (induction pages arbitrary: acc)
  case Nil
  then show ?case by simp
next
  case (Cons p ps)
  then show ?case
    by (cases p) (auto simp: page_returns_def page_text_def split: option.splits)
qed

lemma pypdf_pages_raises:
  "\<forall>p\<in>set ps. page_returns p \<Longrightarrow> pypdf_pages (ps @ Inl e # rest) acc = Inl e"
proof (induction ps arbitrary: acc)
  case Nil
  then show ?case by simp
next
  case (Cons p ps)
  then show ?case by (cases p) (auto simp: page_returns_def)
qed

text \<open>
  When the reader opens the file and the text extraction of every page returns, the
  structural text is the concatenation of the pages' texts in page order, where a page
  without text (\<open>None\<close> or the empty string) contributes the empty string.
\<close>
lemma structural_text_of_returning_pages:
  assumes "pdf_reader env c = Inr pages" and "\<forall>p\<in>set pages. page_returns p"
  shows "structural_text env c = Inr (concat (map page_text pages))
       \<and> page_text (Inr None) = [] \<and> page_text (Inr (Some [])) = []"
  using assms pypdf_pages_returns[of pages "[]"]
  by (simp add: structural_text_def page_text_def)

lemma structural_text_of_three_pages:
  "structural_text
     (broken_page_env \<lparr> pdf_reader := (\<lambda>c. Inr [Inr (Some ''Offer''), Inr None, Inr (Some '' 17'')]) \<rparr>)
     [] = Inr ''Offer 17''"
proof -
  let ?env = "broken_page_env \<lparr> pdf_reader := (\<lambda>c. Inr [Inr (Some ''Offer''), Inr None, Inr (Some '' 17'')]) \<rparr>"
  have 1: "pdf_reader ?env [] = Inr [Inr (Some ''Offer''), Inr None, Inr (Some '' 17'')]"
    by simp
  have 2: "\<forall>p\<in>set [Inr (Some ''Offer''), Inr None, Inr (Some '' 17'') :: page]. page_returns p"
    by (simp add: page_returns_def)
  from structural_text_of_returning_pages[OF 1 2] show ?thesis
    by (simp add: page_text_def)
qed

text \<open>
  C5. The claim does not hold of the code: the page loop has no exception handler. The
  upload below has a first page with text and a second page whose text extraction raises.
  The structural extraction raises that exception instead of taking the empty string for
  the page, and the request ends in the unhandled exception: no field extraction is tried
  and the OCR path, which would have read both pages and given a record, is not started.
\<close>
theorem unreadable_page_fails_request:
  "pdf_reader broken_page_env (content example_upload)
     = Inr [Inr (Some ''Offer 2024-17''), Inl (PyException ''malformed content stream'')]
   \<and> structural_text broken_page_env (content example_upload)
       = Inl (PyException ''malformed content stream'')
   \<and> extract_document_endpoint broken_page_env example_upload
       = (Inl (Unhandled (PyException ''malformed content stream'')), [])
   \<and> ocr_path broken_page_env (content example_upload) = Inr example_record"
  by (simp add: extract_document_endpoint_def structural_text_def broken_page_env_def
      example_upload_def valid_filename_def endswith_def lower_def lower_char_def
      MAX_PDF_SIZE_BYTES_def ocr_path_def extract_text_with_ocr_def)

lemma ocr_attempt_raises:
  assumes "ocr_path env c = Inl e"
  shows "fst (ocr_attempt env c r) = fst (ocr_failed r e)"
    and "LogError (''OCR extraction failed: '' @ exc_str e) \<in> set (snd (ocr_attempt env c r))"
  using assms
  by (auto simp: ocr_path_def ocr_attempt_def ocr_failed_def Let_def split: sum.splits)

lemma ocr_attempt_returns:
  assumes "ocr_path env c = Inr B"
  shows "fst (ocr_attempt env c r) = Inr (Some B)"
  using assms
  by (auto simp: ocr_path_def ocr_attempt_def Let_def split: sum.splits)

text \<open>
  C6. For every upload on which the OCR path was started and raised an error \<open>e\<close> (in the OCR
  extractor or in the field extraction on the OCR text): when there is no structural
  candidate the endpoint fails with the client error 400; when there is a structural
  candidate \<open>A\<close>, the error is logged, the request does not fail and \<open>A\<close> is returned alone.
  As in the code, a candidate is there when the result is neither \<open>None\<close> nor an empty dict.
\<close>
theorem ocr_error_handling:
  assumes "accepted env file pypdf_text"
      and "ocr_invoked (snd (extract_document_endpoint env file))"
      and "ocr_path env (content file) = Inl e"
  shows "(\<not> has_result (structural_candidate env pypdf_text) \<longrightarrow>
            fst (extract_document_endpoint env file)
              = Inl (HTTPException 400 ''Could not extract text from PDF. PyPDF2 and OCR both failed.''))
       \<and> (\<forall>A. structural_candidate env pypdf_text = Some A \<and> A \<noteq> [] \<longrightarrow>
            fst (extract_document_endpoint env file) = Inr A
            \<and> LogError (''OCR extraction failed: '' @ exc_str e)
                \<in> set (snd (extract_document_endpoint env file)))"
proof -
  from assms(1,2) have g: "fst (quality_gate (structural_candidate env pypdf_text)) = Inr True"
    by (simp add: ocr_invoked_iff_gate)
  note ep = endpoint_with_ocr[OF assms(1) g]
  note oa = ocr_attempt_raises[OF assms(3), of "structural_candidate env pypdf_text"]
  have no: "fst (extract_document_endpoint env file)
            = Inl (HTTPException 400 ''Could not extract text from PDF. PyPDF2 and OCR both failed.'')"
    if "\<not> has_result (structural_candidate env pypdf_text)"
    using that ep(1) oa(1) by (simp add: ocr_failed_def)
  have yes: "fst (extract_document_endpoint env file) = Inr A
            \<and> LogError (''OCR extraction failed: '' @ exc_str e)
                \<in> set (snd (extract_document_endpoint env file))"
    if a: "structural_candidate env pypdf_text = Some A" "A \<noteq> []" for A
  proof -
    from a have h: "has_result (structural_candidate env pypdf_text)"
      by (simp add: has_result_def)
    from h ep(1) oa(1) a have "fst (extract_document_endpoint env file) = Inr A"
      by (simp add: ocr_failed_def select_only_pypdf has_result_def)
    moreover from ep(3) oa(2)
    have "LogError (''OCR extraction failed: '' @ exc_str e)
                \<in> set (snd (extract_document_endpoint env file))"
      by blast
    ultimately show ?thesis by blast
  qed
  from no yes show ?thesis by blast
qed

lemma endpoint_merges:
  assumes "accepted env file pypdf_text"
      and "structural_candidate env pypdf_text = Some A" "A \<noteq> []" "fails_completeness A"
      and "ocr_path env (content file) = Inr B" "B \<noteq> []"
  shows "fst (extract_document_endpoint env file) = Inr (merge_results A B)"
proof -
  from assms(2,4) have g: "fst (quality_gate (structural_candidate env pypdf_text)) = Inr True"
    by (simp add: gate_needs_ocr)
  from endpoint_with_ocr(1)[OF assms(1) g]
    ocr_attempt_returns[OF assms(5), of "structural_candidate env pypdf_text"] assms(2,3,6)
  show ?thesis by (simp add: select_both)
qed

text \<open>
  C10. The completeness check is never applied to the OCR candidate: when the structural
  path gave no candidate and the OCR path gave a candidate \<open>B\<close>, the endpoint returns \<open>B\<close> as
  produced, whatever the fields of \<open>B\<close> hold; and whenever the OCR path ran and gave \<open>B\<close>, the
  result is what the selection step makes of the two candidates, with no check on \<open>B\<close>.
\<close>
theorem ocr_candidate_not_gated:
  assumes "accepted env file pypdf_text"
      and "ocr_path env (content file) = Inr B"
  shows "(\<not> has_result (structural_candidate env pypdf_text) \<and> B \<noteq> [] \<longrightarrow>
            fst (extract_document_endpoint env file) = Inr B
            \<and> ocr_invoked (snd (extract_document_endpoint env file)))
       \<and> (ocr_invoked (snd (extract_document_endpoint env file)) \<longrightarrow>
            fst (extract_document_endpoint env file)
              = fst (select_result (structural_candidate env pypdf_text) (Some B)))"
proof -
  have gen: "fst (extract_document_endpoint env file)
              = fst (select_result (structural_candidate env pypdf_text) (Some B))"
    if "fst (quality_gate (structural_candidate env pypdf_text)) = Inr True"
    using endpoint_with_ocr(1)[OF assms(1) that]
      ocr_attempt_returns[OF assms(2), of "structural_candidate env pypdf_text"]
    by simp
  have only: "fst (extract_document_endpoint env file) = Inr B
            \<and> ocr_invoked (snd (extract_document_endpoint env file))"
    if n: "\<not> has_result (structural_candidate env pypdf_text)" "B \<noteq> []"
  proof -
    from n(1) have g: "fst (quality_gate (structural_candidate env pypdf_text)) = Inr True"
      by (simp add: gate_needs_ocr)
    from gen[OF g] n endpoint_with_ocr(2)[OF assms(1) g] show ?thesis
      by (simp add: select_only_ocr)
  qed
  from gen only show ?thesis
    unfolding ocr_invoked_iff_gate[OF assms(1)] by blast
qed

lemmas upload_eval = accepted_def example_upload_def valid_filename_def endswith_def lower_def
  lower_char_def MAX_PDF_SIZE_BYTES_def structural_text_def

lemmas gate_eval = passes_completeness_def fails_completeness_def field_empty_def
  order_lines_empty_def order_lines_nonempty_def dict_get_def py_str_def py_len_def strip_def
  is_space_def

lemma accepted_digital: "accepted digital_env example_upload ''Offer 2024-17''"
  by (simp add: upload_eval digital_env_def)

lemma accepted_scanned: "accepted scanned_env example_upload '' ''"
  by (simp add: upload_eval scanned_env_def)

lemma accepted_ocr_down: "accepted ocr_down_env example_upload ''Offer 2024-17''"
  by (simp add: upload_eval ocr_down_env_def)

lemma accepted_unreadable: "accepted unreadable_env example_upload []"
  by (simp add: upload_eval unreadable_env_def)

lemma example_record_passes: "passes_completeness example_record"
  by (simp add: gate_eval example_record_def)

lemma sparse_record_fails: "fails_completeness sparse_record"
  by (simp add: gate_eval sparse_record_def)

lemma ocr_invoked_iff_code_gate_examples:
  "accepted digital_env example_upload ''Offer 2024-17''
   \<and> passes_completeness example_record
   \<and> fst (extract_document_endpoint digital_env example_upload) = Inr example_record
   \<and> \<not> ocr_invoked (snd (extract_document_endpoint digital_env example_upload))
   \<and> accepted scanned_env example_upload '' ''
   \<and> ocr_invoked (snd (extract_document_endpoint scanned_env example_upload))
   \<and> accepted ocr_down_env example_upload ''Offer 2024-17''
   \<and> fails_completeness sparse_record
   \<and> ocr_invoked (snd (extract_document_endpoint ocr_down_env example_upload))"
proof -
  have d: "strip ''Offer 2024-17'' \<noteq> []
           \<and> extract_document_pypdf digital_env ''Offer 2024-17'' = Inr example_record
           \<and> passes_completeness example_record"
    using example_record_passes by (simp add: digital_env_def strip_def is_space_def)
  from ocr_invoked_iff_code_gate[OF accepted_digital] d
  have 1: "fst (extract_document_endpoint digital_env example_upload) = Inr example_record
           \<and> \<not> ocr_invoked (snd (extract_document_endpoint digital_env example_upload))"
    by blast
  have "strip '' '' = []" by (simp add: strip_def is_space_def)
  with ocr_invoked_iff_code_gate[OF accepted_scanned]
  have 2: "ocr_invoked (snd (extract_document_endpoint scanned_env example_upload))"
    by blast
  have "extract_document_pypdf ocr_down_env ''Offer 2024-17'' = Inr sparse_record"
    by (simp add: ocr_down_env_def)
  with ocr_invoked_iff_code_gate[OF accepted_ocr_down] sparse_record_fails
  have 3: "ocr_invoked (snd (extract_document_endpoint ocr_down_env example_upload))"
    by blast
  from 1 2 3 accepted_digital accepted_scanned accepted_ocr_down example_record_passes
    sparse_record_fails
  show ?thesis by blast
qed

lemma ocr_path_ocr_down:
  "ocr_path ocr_down_env (content example_upload) = Inl (PyException ''Failed to open PDF: no such file'')"
  by (simp add: ocr_path_def extract_text_with_ocr_def ocr_down_env_def)

lemma ocr_path_unreadable:
  "ocr_path unreadable_env (content example_upload) = Inl (PyException ''model unavailable'')"
  by (simp add: ocr_path_def extract_text_with_ocr_def unreadable_env_def)

lemma ocr_path_scanned:
  "ocr_path scanned_env (content example_upload) = Inr sparse_record"
  by (simp add: ocr_path_def extract_text_with_ocr_def scanned_env_def)

theorem ocr_error_handling_witness:
  "accepted unreadable_env example_upload []
   \<and> ocr_path unreadable_env (content example_upload) = Inl (PyException ''model unavailable'')
   \<and> fst (extract_document_endpoint unreadable_env example_upload)
       = Inl (HTTPException 400 ''Could not extract text from PDF. PyPDF2 and OCR both failed.'')
   \<and> accepted ocr_down_env example_upload ''Offer 2024-17''
   \<and> ocr_path ocr_down_env (content example_upload)
       = Inl (PyException ''Failed to open PDF: no such file'')
   \<and> fst (extract_document_endpoint ocr_down_env example_upload) = Inr sparse_record
   \<and> LogError ''OCR extraction failed: Failed to open PDF: no such file''
       \<in> set (snd (extract_document_endpoint ocr_down_env example_upload))"
proof -
  have u: "ocr_invoked (snd (extract_document_endpoint unreadable_env example_upload))"
    using ocr_invoked_iff_gate[OF accepted_unreadable]
    by (simp add: gate_needs_ocr structural_candidate_cases has_result_def strip_def)
  have "\<not> has_result (structural_candidate unreadable_env [])"
    by (simp add: structural_candidate_cases has_result_def strip_def)
  with ocr_error_handling[OF accepted_unreadable u ocr_path_unreadable]
  have 1: "fst (extract_document_endpoint unreadable_env example_upload)
       = Inl (HTTPException 400 ''Could not extract text from PDF. PyPDF2 and OCR both failed.'')"
    by blast
  have c: "structural_candidate ocr_down_env ''Offer 2024-17'' = Some sparse_record"
    by (simp add: structural_candidate_cases ocr_down_env_def strip_def is_space_def)
  have o: "ocr_invoked (snd (extract_document_endpoint ocr_down_env example_upload))"
    using ocr_invoked_iff_gate[OF accepted_ocr_down] c sparse_record_fails
    by (simp add: gate_needs_ocr)
  have "sparse_record \<noteq> []" by (simp add: sparse_record_def)
  with ocr_error_handling[OF accepted_ocr_down o ocr_path_ocr_down] c
  have 2: "fst (extract_document_endpoint ocr_down_env example_upload) = Inr sparse_record
     \<and> LogError ''OCR extraction failed: Failed to open PDF: no such file''
       \<in> set (snd (extract_document_endpoint ocr_down_env example_upload))"
    by simp
  from 1 2 accepted_unreadable accepted_ocr_down ocr_path_unreadable ocr_path_ocr_down
  show ?thesis by blast
qed

theorem ocr_candidate_not_gated_witness:
  "accepted scanned_env example_upload '' ''
   \<and> \<not> has_result (structural_candidate scanned_env '' '')
   \<and> ocr_path scanned_env (content example_upload) = Inr sparse_record
   \<and> fails_completeness sparse_record
   \<and> fst (extract_document_endpoint scanned_env example_upload) = Inr sparse_record
   \<and> ocr_invoked (snd (extract_document_endpoint scanned_env example_upload))"
proof -
  have n: "\<not> has_result (structural_candidate scanned_env '' '')"
    by (simp add: structural_candidate_cases has_result_def strip_def is_space_def)
  have "sparse_record \<noteq> []" by (simp add: sparse_record_def)
  with ocr_candidate_not_gated[OF accepted_scanned ocr_path_scanned] n
  have "fst (extract_document_endpoint scanned_env example_upload) = Inr sparse_record
   \<and> ocr_invoked (snd (extract_document_endpoint scanned_env example_upload))"
    by blast
  with n accepted_scanned ocr_path_scanned sparse_record_fails show ?thesis by blast
qed

lemma accepted_structural: "accepted (structural_env A) example_upload ''Offer 2024-17''"
  by (simp add: upload_eval structural_env_def)

lemma structural_env_candidate:
  "structural_candidate (structural_env A) ''Offer 2024-17'' = Some A"
  by (simp add: structural_candidate_cases structural_env_def strip_def is_space_def)

lemma ocr_path_structural:
  "ocr_path (structural_env A) (content example_upload) = Inr example_record"
  by (simp add: ocr_path_def extract_text_with_ocr_def structural_env_def)

lemma null_vat_record_passes: "passes_completeness null_vat_record"
  by (simp add: gate_eval null_vat_record_def)

lemma blank_vat_record_fails: "fails_completeness blank_vat_record"
  by (simp add: gate_eval blank_vat_record_def)

lemma null_vat_upload:
  "fst (extract_document_endpoint (structural_env null_vat_record) example_upload) = Inr null_vat_record"
  "\<not> ocr_invoked (snd (extract_document_endpoint (structural_env null_vat_record) example_upload))"
proof -
  have g: "fst (quality_gate (structural_candidate (structural_env null_vat_record) ''Offer 2024-17''))
             = Inr False"
    using gate_passes[OF null_vat_record_passes] by (simp add: structural_env_candidate)
  from endpoint_without_ocr[OF accepted_structural g] passes_nonempty[OF null_vat_record_passes]
  show "fst (extract_document_endpoint (structural_env null_vat_record) example_upload) = Inr null_vat_record"
    "\<not> ocr_invoked (snd (extract_document_endpoint (structural_env null_vat_record) example_upload))"
    by (simp_all add: structural_env_candidate select_only_pypdf has_result_def)
qed

lemma blank_vat_upload:
  "fst (extract_document_endpoint (structural_env blank_vat_record) example_upload)
     = Inr (merge_results blank_vat_record example_record)"
  "ocr_invoked (snd (extract_document_endpoint (structural_env blank_vat_record) example_upload))"
proof -
  have ne: "blank_vat_record \<noteq> []" "example_record \<noteq> []"
    by (simp_all add: blank_vat_record_def example_record_def)
  from endpoint_merges[OF accepted_structural structural_env_candidate ne(1)
      blank_vat_record_fails ocr_path_structural ne(2)]
  show "fst (extract_document_endpoint (structural_env blank_vat_record) example_upload)
     = Inr (merge_results blank_vat_record example_record)" .
  have "fst (quality_gate (structural_candidate (structural_env blank_vat_record) ''Offer 2024-17''))
          = Inr True"
    using blank_vat_record_fails by (simp add: gate_needs_ocr structural_env_candidate)
  then show "ocr_invoked (snd (extract_document_endpoint (structural_env blank_vat_record) example_upload))"
    by (simp add: ocr_invoked_iff_gate[OF accepted_structural])
qed

lemma counted_lines_upload:
  "fst (extract_document_endpoint (structural_env counted_lines_record) example_upload)
     = Inl (Unhandled (PyException (''object of type '' @ [CHR 0x27] @ ''int'' @ [CHR 0x27]
                                    @ '' has no len()'')))"
  "\<not> ocr_invoked (snd (extract_document_endpoint (structural_env counted_lines_record) example_upload))"
proof -
  have g: "fst (quality_gate (structural_candidate (structural_env counted_lines_record) ''Offer 2024-17''))
             = Inl (PyException (''object of type '' @ [CHR 0x27] @ ''int'' @ [CHR 0x27]
                                 @ '' has no len()''))"
    by (simp add: structural_env_candidate quality_gate_def has_result_def Let_def
        counted_lines_record_def dict_get_def py_str_def strip_def is_space_def py_len_def
        type_name_def)
  from endpoint_gate_raises[OF accepted_structural g]
  show "fst (extract_document_endpoint (structural_env counted_lines_record) example_upload)
     = Inl (Unhandled (PyException (''object of type '' @ [CHR 0x27] @ ''int'' @ [CHR 0x27]
                                    @ '' has no len()'')))"
    "\<not> ocr_invoked (snd (extract_document_endpoint (structural_env counted_lines_record) example_upload))"
    by simp_all
qed

text \<open>
  C1. The claim does not hold of the code. The completeness check reads each of the four
  text fields with \<open>str()\<close>, and \<open>str(None)\<close> is the text \<open>None\<close>: a candidate whose \<open>vat_id\<close>
  is null, with the other four fields filled, passes the check, the OCR extractor is not
  called and the candidate is returned with its null \<open>vat_id\<close>. The merge step of the same
  function reads a null value as empty. The same candidate with the empty string for
  \<open>vat_id\<close> does start the OCR path, and the merged record takes the OCR candidate's
  \<open>vat_id\<close>. Last, a candidate whose \<open>order_lines\<close> is a number other than zero is neither
  returned nor sent to OCR: \<open>len()\<close> raises and the request ends in that exception.
\<close>
theorem null_vat_id_skips_ocr:
  "dict_get null_vat_record ''vat_id'' (JStr []) = JNull
   \<and> str_or_empty JNull = []
   \<and> fst (extract_document_endpoint (structural_env null_vat_record) example_upload)
       = Inr null_vat_record
   \<and> \<not> ocr_invoked (snd (extract_document_endpoint (structural_env null_vat_record) example_upload))
   \<and> ocr_invoked (snd (extract_document_endpoint (structural_env blank_vat_record) example_upload))
   \<and> fst (extract_document_endpoint (structural_env blank_vat_record) example_upload)
       = Inr (merge_results blank_vat_record example_record)
   \<and> dict_get (merge_results blank_vat_record example_record) ''vat_id'' (JStr [])
       = JStr ''DE123456789''
   \<and> fst (extract_document_endpoint (structural_env counted_lines_record) example_upload)
       = Inl (Unhandled (PyException (''object of type '' @ [CHR 0x27] @ ''int'' @ [CHR 0x27]
                                      @ '' has no len()'')))
   \<and> \<not> ocr_invoked (snd (extract_document_endpoint (structural_env counted_lines_record) example_upload))"
proof -
  have 1: "dict_get null_vat_record ''vat_id'' (JStr []) = JNull"
    by (simp add: null_vat_record_def dict_get_def)
  have 2: "str_or_empty JNull = []"
    by (simp add: str_or_empty_def)
  have 3: "dict_get (merge_results blank_vat_record example_record) ''vat_id'' (JStr [])
             = JStr ''DE123456789''"
    using field_value_merged[of "''vat_id''" blank_vat_record example_record]
    by (simp add: field_value_def dict_get_def blank_vat_record_def example_record_def
        merge_field_def str_or_empty_def strip_def is_space_def py_str_def)
  from 1 2 3 null_vat_upload blank_vat_upload counted_lines_upload show ?thesis
    by simp
qed

subsection \<open>The VAT id validator\<close>

lemma le_length_takeWhile:
  "i \<le> length (takeWhile P s) \<longleftrightarrow> i \<le> length s \<and> list_all P (take i s)"
proof (induction s arbitrary: i)
  case Nil
  then show ?case by simp
next
  case (Cons x xs)
  then show ?case by (cases i) auto
qed

lemma residuals_Class:
  "t \<in> set (residuals (Class rs m n) s) \<longleftrightarrow>
     (\<exists>i. m \<le> i \<and> i \<le> n \<and> i \<le> length s \<and> list_all (in_class rs) (take i s) \<and> t = drop i s)"
proof -
  have "set (residuals (Class rs m n) s)
          = (\<lambda>i. drop i s) ` {i. m \<le> i \<and> i \<le> n \<and> i \<le> length (takeWhile (in_class rs) s)}"
    by (auto simp: Let_def less_Suc_eq_le simp del: upt_Suc)
  then show ?thesis
    by (auto simp: le_length_takeWhile)
qed

lemma residuals_Seq:
  "t \<in> set (residuals (Seq a b) s) \<longleftrightarrow> (\<exists>u \<in> set (residuals a s). t \<in> set (residuals b u))"
  by auto

lemma residuals_split:
  "t \<in> set (residuals r s) \<longleftrightarrow> (\<exists>p. s = p @ t \<and> matches r p)"
proof (induction r arbitrary: s t)
  case (Lit c)
  show ?case by (cases s) (auto simp: matches_def split: list.splits)
next
  case (Class rs m n)
  show ?case
  proof
    assume "t \<in> set (residuals (Class rs m n) s)"
    then obtain i where i: "m \<le> i" "i \<le> n" "i \<le> length s" "list_all (in_class rs) (take i s)"
      "t = drop i s"
      unfolding residuals_Class by blast
    then have "s = take i s @ t \<and> matches (Class rs m n) (take i s)"
      unfolding matches_def residuals_Class by (auto intro!: exI[of _ i])
    then show "\<exists>p. s = p @ t \<and> matches (Class rs m n) p" by blast
  next
    assume "\<exists>p. s = p @ t \<and> matches (Class rs m n) p"
    then obtain p where p: "s = p @ t" "matches (Class rs m n) p" by blast
    then obtain i where i: "m \<le> i" "i \<le> n" "i \<le> length p" "list_all (in_class rs) (take i p)"
      "[] = drop i p"
      unfolding matches_def residuals_Class by blast
    then have "i = length p" by simp
    with i p show "t \<in> set (residuals (Class rs m n) s)"
      unfolding residuals_Class by (auto intro!: exI[of _ "length p"])
  qed
next
  case (Seq a b)
  show ?case
  proof
    assume "t \<in> set (residuals (Seq a b) s)"
    then obtain u where u: "u \<in> set (residuals a s)" "t \<in> set (residuals b u)"
      unfolding residuals_Seq by blast
    from u(1) Seq.IH(1) obtain p where p: "s = p @ u" "matches a p" by blast
    from u(2) Seq.IH(2) obtain q where q: "u = q @ t" "matches b q" by blast
    from p(2) have "q \<in> set (residuals a (p @ q))"
      using Seq.IH(1)[of q "p @ q"] by blast
    moreover from q(2) have "[] \<in> set (residuals b q)" by (simp add: matches_def)
    ultimately have "matches (Seq a b) (p @ q)"
      unfolding matches_def residuals_Seq by blast
    with p q show "\<exists>p. s = p @ t \<and> matches (Seq a b) p" by auto
  next
    assume "\<exists>p. s = p @ t \<and> matches (Seq a b) p"
    then obtain p where p: "s = p @ t" "matches (Seq a b) p" by blast
    then obtain u where u: "u \<in> set (residuals a p)" "[] \<in> set (residuals b u)"
      unfolding matches_def residuals_Seq by blast
    from u(1) Seq.IH(1) obtain p1 where p1: "p = p1 @ u" "matches a p1" by blast
    from p1 p have "u @ t \<in> set (residuals a s)"
      using Seq.IH(1)[of "u @ t" s] by auto
    moreover from u(2) have "t \<in> set (residuals b (u @ t))"
      using Seq.IH(2)[of t "u @ t"] by (auto simp: matches_def)
    ultimately show "t \<in> set (residuals (Seq a b) s)"
      unfolding residuals_Seq by blast
  qed
next
  case (Alt a b)
  show ?case
    using Alt.IH(1)[of t s] Alt.IH(2)[of t s] by (auto simp: matches_def)
qed

lemma matches_Class: "matches (Class rs m n) p \<longleftrightarrow> m \<le> length p \<and> length p \<le> n \<and> list_all (in_class rs) p"
  unfolding matches_def residuals_Class
  by (auto intro!: exI[of _ "length p"])

lemma matches_Lit: "matches (Lit c) p \<longleftrightarrow> p = [c]"
  by (cases p) (auto simp: matches_def)

lemma matches_Seq: "matches (Seq a b) p \<longleftrightarrow> (\<exists>p1 p2. p = p1 @ p2 \<and> matches a p1 \<and> matches b p2)"
proof -
  have "matches (Seq a b) p \<longleftrightarrow> (\<exists>u \<in> set (residuals a p). matches b u)"
    unfolding matches_def residuals_Seq ..
  also have "\<dots> \<longleftrightarrow> (\<exists>p1 p2. p = p1 @ p2 \<and> matches a p1 \<and> matches b p2)"
    using residuals_split[of _ a p] by blast
  finally show ?thesis .
qed

lemma matches_Alt: "matches (Alt a b) p \<longleftrightarrow> matches a p \<or> matches b p"
  by (auto simp: matches_def)

lemma re_match_iff: "re_match r s \<longleftrightarrow> matches r s \<or> (\<exists>p. s = p @ [CHR 0x0A] \<and> matches r p)"
proof -
  have "re_match r s \<longleftrightarrow> [] \<in> set (residuals r s) \<or> [CHR 0x0A] \<in> set (residuals r s)"
    by (auto simp: re_match_def list_ex_iff)
  then show ?thesis
    using residuals_split[of "[CHR 0x0A]" r s] by (simp add: matches_def)
qed

lemma in_class_AZ: "in_class [(CHR ''A'', CHR ''Z'')] c = is_AZ c"
  by (simp add: in_class_def is_AZ_def)

lemma in_class_digit: "in_class [(CHR ''0'', CHR ''9'')] c = is_digit c"
  by (simp add: in_class_def is_digit_def)

lemma in_class_alnum:
  "in_class [(CHR ''0'', CHR ''9''), (CHR ''A'', CHR ''Z'')] c = (is_digit c \<or> is_AZ c)"
  by (simp add: in_class_def is_digit_def is_AZ_def)

lemma matches_eu:
  "matches (Seq (Class [(CHR ''A'', CHR ''Z'')] 2 2)
                (Class [(CHR ''0'', CHR ''9''), (CHR ''A'', CHR ''Z'')] 2 13)) s \<longleftrightarrow> eu_vat s"
proof
  assume "matches (Seq (Class [(CHR ''A'', CHR ''Z'')] 2 2)
                (Class [(CHR ''0'', CHR ''9''), (CHR ''A'', CHR ''Z'')] 2 13)) s"
  then obtain p1 p2 where "s = p1 @ p2" "length p1 = 2" "list_all is_AZ p1"
    "2 \<le> length p2" "length p2 \<le> 13" "list_all (\<lambda>c. is_digit c \<or> is_AZ c) p2"
    unfolding matches_Seq matches_Class in_class_AZ in_class_alnum by auto
  then show "eu_vat s" by (simp add: eu_vat_def)
next
  assume "eu_vat s"
  then have "s = take 2 s @ drop 2 s \<and> matches (Class [(CHR ''A'', CHR ''Z'')] 2 2) (take 2 s)
      \<and> matches (Class [(CHR ''0'', CHR ''9''), (CHR ''A'', CHR ''Z'')] 2 13) (drop 2 s)"
    unfolding matches_Class in_class_AZ in_class_alnum by (auto simp: eu_vat_def)
  then show "matches (Seq (Class [(CHR ''A'', CHR ''Z'')] 2 2)
                (Class [(CHR ''0'', CHR ''9''), (CHR ''A'', CHR ''Z'')] 2 13)) s"
    unfolding matches_Seq by blast
qed

lemma matches_ein:
  "matches (Seq (Class [(CHR ''0'', CHR ''9'')] 2 2)
                (Seq (Lit CHR ''-'') (Class [(CHR ''0'', CHR ''9'')] 7 7))) s \<longleftrightarrow> us_ein s"
proof
  assume "matches (Seq (Class [(CHR ''0'', CHR ''9'')] 2 2)
                (Seq (Lit CHR ''-'') (Class [(CHR ''0'', CHR ''9'')] 7 7))) s"
  then obtain p1 p2 where "s = p1 @ CHR ''-'' # p2" "length p1 = 2" "list_all is_digit p1"
    "length p2 = 7" "list_all is_digit p2"
    unfolding matches_Seq matches_Class matches_Lit in_class_digit by auto
  then show "us_ein s" by (simp add: us_ein_def nth_append)
next
  assume a: "us_ein s"
  then have "drop 2 s = s ! 2 # drop 3 s"
    using Cons_nth_drop_Suc[of 2 s] by (simp add: us_ein_def numeral_3_eq_3 numeral_2_eq_2)
  with a have "s = take 2 s @ [CHR ''-''] @ drop 3 s"
    using append_take_drop_id[of 2 s] by (simp add: us_ein_def)
  moreover from a have "matches (Class [(CHR ''0'', CHR ''9'')] 2 2) (take 2 s)"
    "matches (Class [(CHR ''0'', CHR ''9'')] 7 7) (drop 3 s)"
    unfolding matches_Class in_class_digit by (auto simp: us_ein_def)
  ultimately show "matches (Seq (Class [(CHR ''0'', CHR ''9'')] 2 2)
                (Seq (Lit CHR ''-'') (Class [(CHR ''0'', CHR ''9'')] 7 7))) s"
    unfolding matches_Seq matches_Lit by blast
qed

lemma matches_numeric: "matches (Class [(CHR ''0'', CHR ''9'')] 9 12) s \<longleftrightarrow> numeric_id s"
  unfolding matches_Class in_class_digit by (auto simp: numeric_id_def)

lemma matches_VAT_ID_PATTERN: "matches VAT_ID_PATTERN s \<longleftrightarrow> vat_format s"
  unfolding VAT_ID_PATTERN_def matches_Alt matches_eu matches_ein matches_numeric vat_format_def ..

lemma strip_last: "strip s \<noteq> [] \<Longrightarrow> \<not> is_space (last (strip s))"
proof -
  assume a: "strip s \<noteq> []"
  let ?r = "dropWhile is_space (rev (dropWhile is_space s))"
  from a have "?r \<noteq> []" by (simp add: strip_def)
  then have "\<not> is_space (hd ?r)" by (rule hd_dropWhile)
  with \<open>?r \<noteq> []\<close> show ?thesis by (simp add: strip_def last_rev)
qed

lemma upper_char_no_space: "\<not> is_space c \<Longrightarrow> d \<in> set (upper_char c) \<Longrightarrow> \<not> is_space d"
  by (auto simp: upper_char_def is_space_def Let_def split: if_splits)

lemma upper_char_nonempty: "upper_char c \<noteq> []"
  by (simp add: upper_char_def Let_def)

lemma normalize_last:
  assumes "normalize_vat v \<noteq> []"
  shows "\<not> is_space (last (normalize_vat v))"
proof -
  from assms have ne: "strip v \<noteq> []"
    by (auto simp: normalize_vat_def upper_def replace_spaces_def)
  then obtain u c where u: "strip v = u @ [c]"
    by (metis append_butlast_last_id)
  with strip_last[OF ne] have c: "\<not> is_space c" by simp
  have sp: "is_space CHR '' ''" by (simp add: is_space_def)
  from c sp have keep: "filter (\<lambda>c. c \<noteq> CHR '' '') (upper_char c) = upper_char c"
    using upper_char_no_space[OF c] by (auto simp: filter_id_conv)
  have "normalize_vat v = replace_spaces (upper u) @ upper_char c"
    using u keep by (simp add: normalize_vat_def upper_def replace_spaces_def)
  then have "last (normalize_vat v) = last (upper_char c)"
    using upper_char_nonempty[of c] by simp
  moreover have "last (upper_char c) \<in> set (upper_char c)"
    using upper_char_nonempty[of c] by simp
  ultimately show ?thesis using upper_char_no_space[OF c] by simp
qed

lemma normalize_no_final_newline: "normalize_vat v \<noteq> p @ [CHR 0x0A]"
proof
  assume a: "normalize_vat v = p @ [CHR 0x0A]"
  then have "normalize_vat v \<noteq> []" by simp
  from normalize_last[OF this] a show False by (simp add: is_space_def)
qed

lemma re_match_normalized: "re_match VAT_ID_PATTERN (normalize_vat v) \<longleftrightarrow> vat_format (normalize_vat v)"
  unfolding re_match_iff matches_VAT_ID_PATTERN
  using normalize_no_final_newline[of v] by blast

lemma validate_vat_id_format:
  "validate_vat_id v = Inr w \<longleftrightarrow> vat_format (normalize_vat v) \<and> w = normalize_vat v"
  using re_match_normalized[of v]
  by (auto simp: validate_vat_id_def Let_def normalize_vat_def)

lemma vat_format_nonempty: "vat_format s \<Longrightarrow> s \<noteq> []"
  by (auto simp: vat_format_def eu_vat_def us_ein_def numeric_id_def)

lemma normalize_empty: "normalize_vat [] = []"
  by (simp add: normalize_vat_def strip_def upper_def replace_spaces_def)

lemma vat_id_field_accepts:
  "vat_id_field v = Inr w \<longleftrightarrow> length v \<le> 20 \<and> vat_format (normalize_vat v) \<and> w = normalize_vat v"
proof (cases "v = []")
  case True
  then show ?thesis
    using vat_format_nonempty[of "normalize_vat []"] by (auto simp: vat_id_field_def normalize_empty)
next
  case False
  then have "\<not> length v < 1" by (cases v) auto
  then show ?thesis
    using validate_vat_id_format[of v w] by (auto simp: vat_id_field_def)
qed

lemma vat_examples:
  "vat_id_field ''DE123456789'' = Inr ''DE123456789''"
  "vat_id_field ''ATU12345678'' = Inr ''ATU12345678''"
  "vat_id_field ''12-3456789'' = Inr ''12-3456789''"
  "vat_id_field ''123456789012'' = Inr ''123456789012''"
  "vat_id_field ''abc'' = Inl (value_error invalid_vat_id_message)"
  "vat_id_field [] = Inl string_too_short"
  by code_simp+

text \<open>
  C8. The \<open>vat_id\<close> field accepts a submitted string exactly when it has at most 20
  characters and its normal form (stripped, upper case, spaces removed) is a two-letter
  country code followed by 2 to 13 letters or digits, or NN-NNNNNNN, or 9 to 12 digits; the
  accepted value is the normal form. It accepts the four examples and rejects \<open>abc\<close>, the
  empty string and every string longer than 20 characters with a validation error.
\<close>
theorem vat_id_validation:
  "(vat_id_field v = Inr w \<longleftrightarrow>
      length v \<le> 20 \<and> vat_format (normalize_vat v) \<and> w = normalize_vat v)
   \<and> (20 < length v \<longrightarrow> vat_id_field v = Inl string_too_long)
   \<and> (\<exists>e. vat_id_field v = Inl e) = (\<not> (length v \<le> 20 \<and> vat_format (normalize_vat v)))
   \<and> vat_id_field ''DE123456789'' = Inr ''DE123456789''
   \<and> vat_id_field ''ATU12345678'' = Inr ''ATU12345678''
   \<and> vat_id_field ''12-3456789'' = Inr ''12-3456789''
   \<and> vat_id_field ''123456789012'' = Inr ''123456789012''
   \<and> vat_id_field ''abc'' = Inl (value_error invalid_vat_id_message)
   \<and> vat_id_field [] = Inl string_too_short"
proof -
  have long: "20 < length v \<longrightarrow> vat_id_field v = Inl string_too_long"
    by (auto simp: vat_id_field_def)
  have rej: "(\<exists>e. vat_id_field v = Inl e) = (\<not> (length v \<le> 20 \<and> vat_format (normalize_vat v)))"
  proof (cases "vat_id_field v")
    case (Inl e)
    with vat_id_field_accepts[of v "normalize_vat v"] show ?thesis by auto
  next
    case (Inr w)
    with vat_id_field_accepts[of v w] show ?thesis by auto
  qed
  from long rej vat_id_field_accepts[of v w] vat_examples show ?thesis by blast
qed

theorem vat_id_validation_witness:
  "length '' atu 123 45678 '' \<le> 20
   \<and> normalize_vat '' atu 123 45678 '' = ''ATU12345678''
   \<and> vat_format ''ATU12345678''
   \<and> vat_id_field '' atu 123 45678 '' = Inr ''ATU12345678''
   \<and> 20 < length ''1 2 3 4 5 6 7 8 9 0 1''
   \<and> vat_id_field ''1 2 3 4 5 6 7 8 9 0 1'' = Inl string_too_long"
proof -
  have n: "normalize_vat '' atu 123 45678 '' = ''ATU12345678''" by code_simp
  have f: "vat_format ''ATU12345678''" by code_simp
  have l: "length '' atu 123 45678 '' \<le> 20" by simp
  from vat_id_validation[of "'' atu 123 45678 ''" "''ATU12345678''"] n f l
  have 1: "vat_id_field '' atu 123 45678 '' = Inr ''ATU12345678''" by simp
  have g: "20 < length ''1 2 3 4 5 6 7 8 9 0 1''" by simp
  with vat_id_validation[of "''1 2 3 4 5 6 7 8 9 0 1''" "[]"]
  have 2: "vat_id_field ''1 2 3 4 5 6 7 8 9 0 1'' = Inl string_too_long" by blast
  from n f l 1 g 2 show ?thesis by blast
qed

subsection \<open>Request ids\<close>

lemma digit_value_nth: "n < 10 \<Longrightarrow> digit_value (''0123456789'' ! n) = n"
  unfolding numeral_eq_Suc pred_numeral_simps BitM.simps num.simps
  by (auto simp: digit_value_def less_Suc_eq nth_Cons')

lemma undec_dec: "undec (dec n) = n"
proof (induction n rule: dec.induct)
  case (1 n)
  show ?case
  proof (cases "n < 10")
    case True
    then show ?thesis by (simp add: dec.simps[of n] undec_def digit_value_nth)
  next
    case False
    with 1 have "undec (dec (n div 10)) = n div 10" by simp
    with False show ?thesis
      by (simp add: dec.simps[of n] undec_def digit_value_nth)
  qed
qed

lemma undec_zeros: "foldl (\<lambda>a c. 10 * a + digit_value c) 0 (replicate k CHR ''0'') = 0"
  by (induction k) (simp_all add: digit_value_def)

lemma undec_format: "undec (drop 4 (format_request_id n)) = n"
  using undec_dec[of n] by (simp add: format_request_id_def zero_pad_def undec_def undec_zeros)

lemma format_request_id_inj:
  assumes "format_request_id a = format_request_id b"
  shows "a = b"
proof -
  have "undec (drop 4 (format_request_id a)) = undec (drop 4 (format_request_id b))"
    by (simp only: assms)
  then show ?thesis by (simp only: undec_format)
qed

lemma next_id_fresh:
  assumes "store_inv db"
  shows "get_next_request_id db \<notin> request_ids db"
proof
  assume "get_next_request_id db \<in> request_ids db"
  then obtain i where i: "i < length (procurement_requests db)"
    "row_id (procurement_requests db ! i) = get_next_request_id db"
    by (auto simp: request_ids_def in_set_conv_nth)
  with assms have "format_request_id (Suc i) = format_request_id (length (procurement_requests db) + 1)"
    by (simp add: store_inv_def get_next_request_id_def)
  then have "Suc i = length (procurement_requests db) + 1" by (rule format_request_id_inj)
  with i(1) show False by simp
qed

subsection \<open>What each operation does to the tables\<close>

lemma create_tables:
  assumes "get_next_request_id db \<notin> request_ids db" "storable d"
  shows "procurement_requests (snd (create_request d now db))
           = procurement_requests db
             @ [\<lparr> requestor_name = requestor_name d, title = title d, vendor_name = vendor_name d,
                  vat_id = vat_id d, commodity_group_id = commodity_group_id d,
                  total_cost = total_cost d, department = department d,
                  row_id = get_next_request_id db, row_status = ''Open'',
                  row_created_at = now \<rparr>]"
    and "order_lines_rows (snd (create_request d now db))
           = order_lines_rows db
             @ map (\<lambda>line. \<lparr> description = description line, unit_price = unit_price line,
                              amount = amount line, unit = unit line,
                              total_price = total_price line,
                              line_request_id = get_next_request_id db \<rparr>) (order_lines d)"
    and "status_history_rows (snd (create_request d now db))
           = status_history_rows db
             @ [\<lparr> entry_status = ''Open'', timestamp = now,
                  history_request_id = get_next_request_id db \<rparr>]"
    and "document_cache (snd (create_request d now db)) = document_cache db"
    and "fst (create_request d now db)
           = Inr (get_request (snd (create_request d now db)) (get_next_request_id db))"
  using assms by (simp_all add: create_request_def request_ids_def storable_def Let_def)

lemma create_refused:
  "get_next_request_id db \<in> request_ids db \<or> \<not> storable d \<Longrightarrow>
   snd (create_request d now db) = db"
  by (auto simp: create_request_def request_ids_def storable_def Let_def)

lemma create_overflow:
  assumes "get_next_request_id db \<notin> request_ids db" "\<not> storable d"
  shows "create_request d now db
           = (Inl (PyException ''Python int too large to convert to SQLite INTEGER''), db)"
  using assms by (simp add: create_request_def request_ids_def storable_def Let_def)

lemma update_tables:
  assumes "rid \<in> request_ids db"
  shows "procurement_requests (snd (update_request_status rid s now db))
           = map (\<lambda>r. if row_id r = rid then r \<lparr> row_status := s \<rparr> else r) (procurement_requests db)"
    and "order_lines_rows (snd (update_request_status rid s now db)) = order_lines_rows db"
    and "status_history_rows (snd (update_request_status rid s now db))
           = status_history_rows db
             @ [\<lparr> entry_status = s, timestamp = now, history_request_id = rid \<rparr>]"
    and "document_cache (snd (update_request_status rid s now db)) = document_cache db"
    and "fst (update_request_status rid s now db)
           = get_request (snd (update_request_status rid s now db)) rid"
  using assms by (simp_all add: update_request_status_def request_ids_def Let_def)

lemma update_unknown:
  "rid \<notin> request_ids db \<Longrightarrow> update_request_status rid s now db = (None, db)"
  by (simp add: update_request_status_def request_ids_def)

lemma update_ids:
  "request_ids (snd (update_request_status rid s now db)) = request_ids db"
proof (cases "rid \<in> request_ids db")
  case True
  have "map row_id (map (\<lambda>r. if row_id r = rid then r \<lparr> row_status := s \<rparr> else r) rows)
          = map row_id rows" for rows :: "request_row list"
    by (induction rows) auto
  with update_tables(1)[OF True] show ?thesis by (simp add: request_ids_def)
next
  case False
  then show ?thesis by (simp add: update_unknown)
qed

lemma history_create:
  assumes "get_next_request_id db \<notin> request_ids db" "storable d"
  shows "history_of (snd (create_request d now db)) rid
           = history_of db rid
             @ (if rid = get_next_request_id db
                then [\<lparr> entry_status = ''Open'', timestamp = now \<rparr>] else [])"
  by (auto simp: history_of_def create_tables(3)[OF assms])

lemma history_update:
  assumes "rid \<in> request_ids db"
  shows "history_of (snd (update_request_status rid s now db)) rid'
           = history_of db rid'
             @ (if rid' = rid then [\<lparr> entry_status = s, timestamp = now \<rparr>] else [])"
  by (auto simp: history_of_def update_tables(3)[OF assms])

lemma history_cache: "history_of (cache_extraction h name e now db) rid = history_of db rid"
  by (simp add: history_of_def cache_extraction_def)

lemma history_unknown:
  assumes "\<forall>h \<in> set (status_history_rows db). history_request_id h \<in> request_ids db"
      and "rid \<notin> request_ids db"
  shows "history_of db rid = []"
  using assms by (auto simp: history_of_def filter_empty_conv)

lemma lines_unknown:
  assumes "\<forall>l \<in> set (order_lines_rows db). line_request_id l \<in> request_ids db"
      and "rid \<notin> request_ids db"
  shows "lines_of db rid = []"
  using assms by (auto simp: lines_of_def filter_empty_conv)

lemma lines_create:
  assumes "get_next_request_id db \<notin> request_ids db" "storable d"
  shows "lines_of (snd (create_request d now db)) rid
           = lines_of db rid @ (if rid = get_next_request_id db then order_lines d else [])"
proof -
  have eta: "map (\<lambda>line. \<lparr> description = description line, unit_price = unit_price line,
                    amount = amount line, unit = unit line, total_price = total_price line \<rparr>) ls
              = ls" for ls :: "order_line list"
    by (induction ls) auto
  show ?thesis
    by (auto simp: lines_of_def create_tables(2)[OF assms] filter_map comp_def eta)
qed

lemma lines_update:
  "lines_of (snd (update_request_status rid s now db)) rid' = lines_of db rid'"
  by (cases "rid \<in> request_ids db") (simp_all add: lines_of_def update_tables(2) update_unknown)

subsection \<open>The invariant of the store\<close>

lemma inv_init: "store_inv init_database"
  by (simp add: store_inv_def init_database_def history_consistent_def)

lemma create_ids:
  assumes "get_next_request_id db \<notin> request_ids db" "storable d"
  shows "request_ids (snd (create_request d now db)) = insert (get_next_request_id db) (request_ids db)"
  by (simp add: request_ids_def create_tables(1)[OF assms])

lemma inv_create:
  assumes "store_inv db"
  shows "store_inv (snd (create_request d now db))"
proof (cases "storable d")
  case False
  with assms show ?thesis by (simp add: create_refused)
next
  case True
  let ?db = "snd (create_request d now db)"
  let ?new = "get_next_request_id db"
  note fresh = next_id_fresh[OF assms]
  note tabs = create_tables[OF fresh True, of now]
  note ids = create_ids[OF fresh True, of now]
  from assms have old:
    "\<forall>i < length (procurement_requests db).
        row_id (procurement_requests db ! i) = format_request_id (Suc i)"
    "\<forall>l \<in> set (order_lines_rows db). line_request_id l \<in> request_ids db"
    "\<forall>h \<in> set (status_history_rows db). history_request_id h \<in> request_ids db"
    "history_consistent db"
    "distinct (map file_hash (document_cache db))"
    by (simp_all add: store_inv_def)
  have 1: "\<forall>i < length (procurement_requests ?db).
        row_id (procurement_requests ?db ! i) = format_request_id (Suc i)"
    using old(1) by (auto simp: tabs(1) nth_append get_next_request_id_def less_Suc_eq)
  have 2: "\<forall>l \<in> set (order_lines_rows ?db). line_request_id l \<in> request_ids ?db"
    using old(2) by (auto simp: tabs(2) ids)
  have 3: "\<forall>h \<in> set (status_history_rows ?db). history_request_id h \<in> request_ids ?db"
    using old(3) by (auto simp: tabs(3) ids)
  have 4: "history_consistent ?db"
    unfolding history_consistent_def
  proof
    fix r assume "r \<in> set (procurement_requests ?db)"
    then consider (old) "r \<in> set (procurement_requests db)"
      | (new) "row_id r = ?new" "row_status r = ''Open''" "row_created_at r = now"
      by (auto simp: tabs(1))
    then show "history_of ?db (row_id r) \<noteq> []
        \<and> hd (history_of ?db (row_id r))
            = \<lparr> entry_status = ''Open'', timestamp = row_created_at r \<rparr>
        \<and> entry_status (last (history_of ?db (row_id r))) = row_status r"
    proof cases
      case old
      then have "row_id r \<in> request_ids db" by (simp add: request_ids_def)
      with fresh have "row_id r \<noteq> ?new" by auto
      with old \<open>history_consistent db\<close> show ?thesis
        by (simp add: history_create[OF fresh True] history_consistent_def)
    next
      case new
      with history_unknown[OF old(3) fresh] show ?thesis
        by (simp add: history_create[OF fresh True])
    qed
  qed
  from 1 2 3 4 old(5) show ?thesis by (simp add: store_inv_def tabs(4))
qed

lemma inv_update:
  assumes "store_inv db"
  shows "store_inv (snd (update_request_status rid s now db))"
proof (cases "rid \<in> request_ids db")
  case False
  with assms show ?thesis by (simp add: update_unknown)
next
  case True
  let ?db = "snd (update_request_status rid s now db)"
  let ?f = "\<lambda>r. if row_id r = rid then r \<lparr> row_status := s \<rparr> else r"
  note tabs = update_tables[OF True, of s now]
  note ids = update_ids[of rid s now db]
  from assms have old:
    "\<forall>i < length (procurement_requests db).
        row_id (procurement_requests db ! i) = format_request_id (Suc i)"
    "\<forall>l \<in> set (order_lines_rows db). line_request_id l \<in> request_ids db"
    "\<forall>h \<in> set (status_history_rows db). history_request_id h \<in> request_ids db"
    "history_consistent db"
    "distinct (map file_hash (document_cache db))"
    by (simp_all add: store_inv_def)
  have 1: "\<forall>i < length (procurement_requests ?db).
        row_id (procurement_requests ?db ! i) = format_request_id (Suc i)"
    using old(1) by (simp add: tabs(1))
  have 2: "\<forall>l \<in> set (order_lines_rows ?db). line_request_id l \<in> request_ids ?db"
    using old(2) by (simp add: tabs(2) ids)
  have 3: "\<forall>h \<in> set (status_history_rows ?db). history_request_id h \<in> request_ids ?db"
    using old(3) True by (auto simp: tabs(3) ids)
  have 4: "history_consistent ?db"
    unfolding history_consistent_def
  proof
    fix r' assume "r' \<in> set (procurement_requests ?db)"
    then obtain r where r: "r \<in> set (procurement_requests db)" "r' = ?f r"
      by (auto simp: tabs(1))
    from r(1) old(4) have h: "history_of db (row_id r) \<noteq> []"
      "hd (history_of db (row_id r)) = \<lparr> entry_status = ''Open'', timestamp = row_created_at r \<rparr>"
      "entry_status (last (history_of db (row_id r))) = row_status r"
      by (simp_all add: history_consistent_def)
    show "history_of ?db (row_id r') \<noteq> []
        \<and> hd (history_of ?db (row_id r'))
            = \<lparr> entry_status = ''Open'', timestamp = row_created_at r' \<rparr>
        \<and> entry_status (last (history_of ?db (row_id r'))) = row_status r'"
      using h r(2) by (auto simp: history_update[OF True] hd_append)
  qed
  from 1 2 3 4 old(5) show ?thesis by (simp add: store_inv_def tabs(4))
qed

lemma inv_cache:
  assumes "store_inv db"
  shows "store_inv (cache_extraction h name e now db)"
proof -
  have "history_consistent (cache_extraction h name e now db) = history_consistent db"
    by (simp add: history_consistent_def history_cache) (simp add: cache_extraction_def)
  moreover have "distinct (map file_hash (document_cache (cache_extraction h name e now db)))"
    using assms by (auto simp: store_inv_def cache_extraction_def distinct_map_filter)
  ultimately show ?thesis
    using assms by (simp add: store_inv_def) (simp add: cache_extraction_def request_ids_def)
qed

lemma inv_step: "store_inv db \<Longrightarrow> store_inv (apply_op op db)"
  by (cases op) (simp_all add: inv_create inv_update inv_cache upload_request_def)

lemma inv_reachable: "reachable db \<Longrightarrow> store_inv db"
  by (induction rule: reachable.induct) (simp_all add: inv_init inv_step)

subsection \<open>Reading a request back\<close>

lemma filter_id_map:
  "filter (\<lambda>r. row_id r = rid') (map (\<lambda>r. if row_id r = rid then r \<lparr> row_status := s \<rparr> else r) rows)
     = map (\<lambda>r. if row_id r = rid then r \<lparr> row_status := s \<rparr> else r)
           (filter (\<lambda>r. row_id r = rid') rows)"
  by (induction rows) auto

lemma get_request_known:
  assumes "get_request db rid = Some r"
  shows "rid \<in> request_ids db"
proof -
  from assms obtain row rest where
    "filter (\<lambda>r. row_id r = rid) (procurement_requests db) = row # rest"
    by (auto simp: get_request_def split: list.splits)
  then have "row \<in> set (filter (\<lambda>r. row_id r = rid) (procurement_requests db))" by simp
  then have "row \<in> set (procurement_requests db)" "row_id row = rid" by simp_all
  then show ?thesis unfolding request_ids_def by force
qed

lemma get_request_updated:
  assumes "get_request db rid = Some r"
  shows "get_request (snd (update_request_status rid s now db)) rid
           = Some (r \<lparr> status := s,
                       status_history := status_history r @ [\<lparr> entry_status = s, timestamp = now \<rparr>] \<rparr>)"
proof -
  note known = get_request_known[OF assms]
  from assms obtain row rest where
    row: "filter (\<lambda>r. row_id r = rid) (procurement_requests db) = row # rest"
    by (auto simp: get_request_def split: list.splits)
  then have "row \<in> set (filter (\<lambda>r. row_id r = rid) (procurement_requests db))" by simp
  then have id: "row_id row = rid" by simp
  from row id have f: "filter (\<lambda>r. row_id r = rid)
           (procurement_requests (snd (update_request_status rid s now db)))
         = row \<lparr> row_status := s \<rparr>
           # map (\<lambda>r. if row_id r = rid then r \<lparr> row_status := s \<rparr> else r) rest"
    by (simp add: update_tables(1)[OF known] filter_id_map)
  from assms row have r: "r = \<lparr> rec_id = row_id row,
                 data = \<lparr> requestor_name = requestor_name row, title = title row,
                          vendor_name = vendor_name row, vat_id = vat_id row,
                          commodity_group_id = commodity_group_id row,
                          total_cost = total_cost row, department = department row,
                          order_lines = lines_of db rid \<rparr>,
                 status = row_status row,
                 status_history = history_of db rid,
                 created_at = row_created_at row \<rparr>"
    by (simp add: get_request_def)
  show ?thesis
    unfolding get_request_def f
    by (simp add: r lines_update history_update[OF known])
qed

lemma get_request_other_update:
  assumes "rid' \<noteq> rid"
  shows "get_request (snd (update_request_status rid s now db)) rid' = get_request db rid'"
proof (cases "rid \<in> request_ids db")
  case False
  then show ?thesis by (simp add: update_unknown)
next
  case True
  have "map (\<lambda>r. if row_id r = rid then r \<lparr> row_status := s \<rparr> else r)
            (filter (\<lambda>r. row_id r = rid') rows)
          = filter (\<lambda>r. row_id r = rid') rows" for rows :: "request_row list"
    using assms by (induction rows) auto
  then show ?thesis
    using assms
    by (simp add: get_request_def update_tables(1)[OF True] filter_id_map lines_update
        history_update[OF True] cong: list.case_cong)
qed

lemma get_request_created:
  assumes "store_inv db" "storable d"
  shows "get_request (snd (create_request d now db)) (get_next_request_id db)
           = Some \<lparr> rec_id = get_next_request_id db, data = d, status = ''Open'',
                    status_history = [\<lparr> entry_status = ''Open'', timestamp = now \<rparr>],
                    created_at = now \<rparr>"
proof -
  note fresh = next_id_fresh[OF assms(1)]
  from assms(1) have refs:
    "\<forall>l \<in> set (order_lines_rows db). line_request_id l \<in> request_ids db"
    "\<forall>h \<in> set (status_history_rows db). history_request_id h \<in> request_ids db"
    by (simp_all add: store_inv_def)
  from fresh have none: "filter (\<lambda>r. row_id r = get_next_request_id db) (procurement_requests db) = []"
    unfolding request_ids_def filter_empty_conv by force
  show ?thesis
    by (simp add: get_request_def create_tables(1)[OF fresh assms(2)] none
        lines_create[OF fresh assms(2)] history_create[OF fresh assms(2)]
        lines_unknown[OF refs(1) fresh] history_unknown[OF refs(2) fresh])
qed

lemma get_request_other_create:
  assumes "store_inv db" "rid \<noteq> get_next_request_id db"
  shows "get_request (snd (create_request d now db)) rid = get_request db rid"
proof (cases "storable d")
  case False
  then show ?thesis by (simp add: create_refused)
next
  case True
  with assms(2) next_id_fresh[OF assms(1)] show ?thesis
    by (simp add: get_request_def create_tables(1) lines_create history_create
        cong: list.case_cong)
qed

lemma get_request_consistent:
  assumes "store_inv db" "get_request db rid = Some r"
  shows "status_history r \<noteq> []
       \<and> hd (status_history r) = \<lparr> entry_status = ''Open'', timestamp = created_at r \<rparr>
       \<and> entry_status (last (status_history r)) = status r"
proof -
  from assms(2) obtain row rest where
    row: "filter (\<lambda>r. row_id r = rid) (procurement_requests db) = row # rest"
    by (auto simp: get_request_def split: list.splits)
  then have "row \<in> set (filter (\<lambda>r. row_id r = rid) (procurement_requests db))" by simp
  then have m: "row \<in> set (procurement_requests db)" "row_id row = rid" by simp_all
  from assms(1) m(1) have "history_of db (row_id row) \<noteq> []
        \<and> hd (history_of db (row_id row))
            = \<lparr> entry_status = ''Open'', timestamp = row_created_at row \<rparr>
        \<and> entry_status (last (history_of db (row_id row))) = row_status row"
    by (simp add: store_inv_def history_consistent_def)
  with assms(2) row m(2) show ?thesis
    by (auto simp: get_request_def)
qed

lemma history_step: "\<exists>new. history_of (apply_op op db) rid = history_of db rid @ new \<and> length new \<le> 1"
proof (cases op)
  case (Create d now)
  show ?thesis
  proof (cases "get_next_request_id db \<in> request_ids db \<or> \<not> storable d")
    case True
    with Create show ?thesis by (simp add: create_refused)
  next
    case False
    with Create show ?thesis by (simp add: history_create)
  qed
next
  case (Update_status r s now)
  show ?thesis
  proof (cases "r \<in> request_ids db")
    case True
    with Update_status show ?thesis by (simp add: history_update)
  next
    case False
    with Update_status show ?thesis by (simp add: update_unknown)
  qed
next
  case (Cache h name e now)
  then show ?thesis by (simp add: history_cache)
next
  case (Upload e u)
  then show ?thesis by (simp add: upload_request_def)
qed

lemma lifecycle_scenario:
  assumes "store_inv db" "storable d"
  shows "get_request
           (snd (update_request_status (get_next_request_id db) ''Closed'' tc
             (snd (update_request_status (get_next_request_id db) ''In Progress'' tb
               (snd (create_request d t0 db))))))
           (get_next_request_id db)
         = Some \<lparr> rec_id = get_next_request_id db, data = d, status = ''Closed'',
                  status_history = [\<lparr> entry_status = ''Open'', timestamp = t0 \<rparr>,
                                    \<lparr> entry_status = ''In Progress'', timestamp = tb \<rparr>,
                                    \<lparr> entry_status = ''Closed'', timestamp = tc \<rparr>],
                  created_at = t0 \<rparr>"
  using get_request_updated[OF get_request_updated[OF get_request_created[OF assms, of t0],
          of "''In Progress''" tb], of "''Closed''" tc]
  by simp

text \<open>
  C9. In every reachable state of the store: each stored request has a history that is not
  empty, starts with \<open>{Open, created_at}\<close> and ends with the request's current status; a
  creation whose order-line amounts are all 64-bit integers returns the request with status
  \<open>Open\<close> and exactly that one history entry, and a creation with an amount outside that
  range raises \<open>OverflowError\<close> and leaves the store as it was; a status update of an
  existing request sets the status and appends exactly one \<open>{status, timestamp}\<close> entry;
  every operation, a failing creation included, leaves the entries a request already has in
  place and in order, adding at most one at the end; and after such a creation and updates
  to \<open>In Progress\<close> and \<open>Closed\<close>, \<open>get_request\<close> reports \<open>Closed\<close> and the three entries in
  the order of insertion.
\<close>
theorem status_history_append_only:
  assumes "reachable db"
  shows "(\<forall>rid r. get_request db rid = Some r \<longrightarrow>
            status_history r \<noteq> []
            \<and> hd (status_history r) = \<lparr> entry_status = ''Open'', timestamp = created_at r \<rparr>
            \<and> entry_status (last (status_history r)) = status r)
       \<and> (list_all (\<lambda>line. sqlite_integer (amount line)) (order_lines d) \<longrightarrow>
            create_request d now db
              = (Inr (Some \<lparr> rec_id = get_next_request_id db, data = d, status = ''Open'',
                             status_history = [\<lparr> entry_status = ''Open'', timestamp = now \<rparr>],
                             created_at = now \<rparr>),
                 snd (create_request d now db))
            \<and> get_request (snd (create_request d now db)) (get_next_request_id db)
              = Some \<lparr> rec_id = get_next_request_id db, data = d, status = ''Open'',
                       status_history = [\<lparr> entry_status = ''Open'', timestamp = now \<rparr>],
                       created_at = now \<rparr>)
       \<and> (\<not> list_all (\<lambda>line. sqlite_integer (amount line)) (order_lines d) \<longrightarrow>
            create_request d now db
              = (Inl (PyException ''Python int too large to convert to SQLite INTEGER''), db))
       \<and> (\<forall>rid r. get_request db rid = Some r \<longrightarrow>
            fst (update_request_status rid s now db)
              = Some (r \<lparr> status := s,
                          status_history := status_history r
                            @ [\<lparr> entry_status = s, timestamp = now \<rparr>] \<rparr>))
       \<and> (\<forall>op rid. \<exists>new. history_of (apply_op op db) rid = history_of db rid @ new
                          \<and> length new \<le> 1)
       \<and> (list_all (\<lambda>line. sqlite_integer (amount line)) (order_lines d) \<longrightarrow>
            get_request
              (snd (update_request_status (get_next_request_id db) ''Closed'' tc
                (snd (update_request_status (get_next_request_id db) ''In Progress'' tb
                  (snd (create_request d now db))))))
              (get_next_request_id db)
            = Some \<lparr> rec_id = get_next_request_id db, data = d, status = ''Closed'',
                     status_history = [\<lparr> entry_status = ''Open'', timestamp = now \<rparr>,
                                       \<lparr> entry_status = ''In Progress'', timestamp = tb \<rparr>,
                                       \<lparr> entry_status = ''Closed'', timestamp = tc \<rparr>],
                     created_at = now \<rparr>)"
proof -
  note inv = inv_reachable[OF assms]
  note fresh = next_id_fresh[OF inv]
  have a: "\<forall>rid r. get_request db rid = Some r \<longrightarrow>
            status_history r \<noteq> []
            \<and> hd (status_history r) = \<lparr> entry_status = ''Open'', timestamp = created_at r \<rparr>
            \<and> entry_status (last (status_history r)) = status r"
    using get_request_consistent[OF inv] by blast
  have b: "create_request d now db
              = (Inr (Some \<lparr> rec_id = get_next_request_id db, data = d, status = ''Open'',
                             status_history = [\<lparr> entry_status = ''Open'', timestamp = now \<rparr>],
                             created_at = now \<rparr>),
                 snd (create_request d now db))
            \<and> get_request (snd (create_request d now db)) (get_next_request_id db)
              = Some \<lparr> rec_id = get_next_request_id db, data = d, status = ''Open'',
                       status_history = [\<lparr> entry_status = ''Open'', timestamp = now \<rparr>],
                       created_at = now \<rparr>"
    if "storable d"
    using get_request_created[OF inv that, of now] create_tables(5)[OF fresh that, of now]
    by (simp add: prod_eq_iff)
  have b': "create_request d now db
              = (Inl (PyException ''Python int too large to convert to SQLite INTEGER''), db)"
    if "\<not> storable d"
    using create_overflow[OF fresh that] .
  have c: "\<forall>rid r. get_request db rid = Some r \<longrightarrow>
            fst (update_request_status rid s now db)
              = Some (r \<lparr> status := s,
                          status_history := status_history r
                            @ [\<lparr> entry_status = s, timestamp = now \<rparr>] \<rparr>)"
    using get_request_updated[of db _ _ s now] update_tables(5)[OF get_request_known, of db _ _ s now]
    by simp
  from a b b' c history_step[of _ db] lifecycle_scenario[OF inv, of d tc tb now]
  show ?thesis unfolding storable_def by blast
qed

subsection \<open>The extraction cache and the request lifecycle\<close>

lemma filter_key_distinct:
  "distinct (map f xs) \<Longrightarrow> length (filter (\<lambda>x. f x = k) xs) \<le> 1"
proof (induction xs)
  case Nil
  then show ?case by simp
next
  case (Cons x xs)
  show ?case
  proof (cases "f x = k")
    case True
    from Cons.prems have "f x \<notin> f ` set xs" by simp
    then have "\<forall>y \<in> set xs. f y \<noteq> f x" by (metis imageI)
    with True have "\<forall>y \<in> set xs. f y \<noteq> k" by simp
    then have "filter (\<lambda>x. f x = k) xs = []"
      by (simp add: filter_empty_conv)
    with True show ?thesis by simp
  next
    case False
    with Cons show ?thesis by simp
  qed
qed

lemma digital_upload_result:
  "fst (extract_document_endpoint digital_env example_upload) = Inr example_record"
proof -
  have c: "structural_candidate digital_env ''Offer 2024-17'' = Some example_record"
    by (simp add: structural_candidate_cases digital_env_def strip_def is_space_def)
  then have g: "fst (quality_gate (structural_candidate digital_env ''Offer 2024-17'')) = Inr False"
    using gate_passes[OF example_record_passes] by simp
  from endpoint_without_ocr(1)[OF accepted_digital g] c passes_nonempty[OF example_record_passes]
  show ?thesis by (simp add: select_only_pypdf has_result_def)
qed

text \<open>
  C7, as amended. \<open>cache_extraction\<close> stores the filename and the extraction result under the
  given hash and replaces an entry that is already there: afterwards the table has exactly
  one row for that hash, the one just written, \<open>get_cached_extraction\<close> returns the data just
  written, and the rows of every other hash are as before; in every reachable state the
  table has at most one row per hash. Serving an upload leaves the cache as it is.
\<close>
theorem cache_entry_overwrite:
  "rows_of_hash (cache_extraction h name e now db) h
     = [\<lparr> file_hash = h, cached_filename = name, extracted_data = e, cached_at = now \<rparr>]
   \<and> get_cached_extraction (cache_extraction h name e now db) h = Some e
   \<and> (\<forall>h'. h' \<noteq> h \<longrightarrow> rows_of_hash (cache_extraction h name e now db) h' = rows_of_hash db h')
   \<and> (reachable db \<longrightarrow> (\<forall>h'. length (rows_of_hash db h') \<le> 1))
   \<and> document_cache (snd (upload_request env file db)) = document_cache db"
proof -
  have other: "filter (\<lambda>r. file_hash r = h') (filter (\<lambda>r. file_hash r \<noteq> h) rows)
                 = filter (\<lambda>r. file_hash r = h') rows" if "h' \<noteq> h" for h' and rows :: "cache_row list"
    using that by (induction rows) auto
  have same: "filter (\<lambda>r. file_hash r = h) (filter (\<lambda>r. file_hash r \<noteq> h) rows) = []"
    for rows :: "cache_row list"
    by (induction rows) auto
  have 1: "rows_of_hash (cache_extraction h name e now db) h
     = [\<lparr> file_hash = h, cached_filename = name, extracted_data = e, cached_at = now \<rparr>]"
    by (simp add: rows_of_hash_def cache_extraction_def same)
  then have 2: "get_cached_extraction (cache_extraction h name e now db) h = Some e"
    by (simp add: get_cached_extraction_def rows_of_hash_def)
  have 3: "\<forall>h'. h' \<noteq> h \<longrightarrow> rows_of_hash (cache_extraction h name e now db) h' = rows_of_hash db h'"
    using other by (simp add: rows_of_hash_def cache_extraction_def del: filter_filter)
  have 4: "reachable db \<longrightarrow> (\<forall>h'. length (rows_of_hash db h') \<le> 1)"
    using inv_reachable[of db] filter_key_distinct[of file_hash "document_cache db"]
    by (auto simp: store_inv_def rows_of_hash_def)
  have 5: "document_cache (snd (upload_request env file db)) = document_cache db"
    by (simp add: upload_request_def)
  from 1 2 3 4 5 show ?thesis by blast
qed

theorem cache_entry_overwrite_witness:
  "reachable cached_once
   \<and> rows_of_hash cached_once ''9f86d081''
       = [\<lparr> file_hash = ''9f86d081'', cached_filename = ''offer.pdf'',
            extracted_data = example_record, cached_at = ''2024-05-01T10:00:00'' \<rparr>]
   \<and> rows_of_hash (cache_extraction ''9f86d081'' ''scan.pdf'' sparse_record ''2024-05-02T08:30:00'' cached_once)
         ''9f86d081''
       = [\<lparr> file_hash = ''9f86d081'', cached_filename = ''scan.pdf'',
            extracted_data = sparse_record, cached_at = ''2024-05-02T08:30:00'' \<rparr>]
   \<and> get_cached_extraction
         (cache_extraction ''9f86d081'' ''scan.pdf'' sparse_record ''2024-05-02T08:30:00'' cached_once)
         ''9f86d081'' = Some sparse_record
   \<and> length (rows_of_hash cached_once ''9f86d081'') \<le> 1"
proof -
  have r: "reachable cached_once"
    using reachable_step[OF reachable_init,
        of "Cache ''9f86d081'' ''offer.pdf'' example_record ''2024-05-01T10:00:00''"]
    by (simp add: cached_once_def)
  from cache_entry_overwrite[of "''9f86d081''" "''offer.pdf''" example_record
      "''2024-05-01T10:00:00''" init_database]
  have 1: "rows_of_hash cached_once ''9f86d081''
       = [\<lparr> file_hash = ''9f86d081'', cached_filename = ''offer.pdf'',
            extracted_data = example_record, cached_at = ''2024-05-01T10:00:00'' \<rparr>]"
    by (simp add: cached_once_def)
  from cache_entry_overwrite[of "''9f86d081''" "''scan.pdf''" sparse_record
      "''2024-05-02T08:30:00''" cached_once] r
  have 2: "rows_of_hash (cache_extraction ''9f86d081'' ''scan.pdf'' sparse_record ''2024-05-02T08:30:00'' cached_once)
         ''9f86d081''
       = [\<lparr> file_hash = ''9f86d081'', cached_filename = ''scan.pdf'',
            extracted_data = sparse_record, cached_at = ''2024-05-02T08:30:00'' \<rparr>]"
    "get_cached_extraction
         (cache_extraction ''9f86d081'' ''scan.pdf'' sparse_record ''2024-05-02T08:30:00'' cached_once)
         ''9f86d081'' = Some sparse_record"
    "length (rows_of_hash cached_once ''9f86d081'') \<le> 1"
    by blast+
  from r 1 2 show ?thesis by blast
qed

text \<open>
  C7 as stated fails: the upload below is processed successfully, and the cache of the store
  it was served on is still empty afterwards.
\<close>
theorem upload_writes_no_cache_entry:
  "fst (fst (upload_request digital_env example_upload init_database)) = Inr example_record
   \<and> document_cache (snd (upload_request digital_env example_upload init_database)) = []"
  using digital_upload_result by (simp add: upload_request_def init_database_def)

theorem status_history_append_only_witness:
  "reachable init_database
   \<and> get_next_request_id init_database = ''REQ-0001''
   \<and> list_all (\<lambda>line. sqlite_integer (amount line)) (order_lines example_request)
   \<and> fst (create_request example_request ''2024-05-01T10:00:00'' init_database)
       = Inr (Some \<lparr> rec_id = ''REQ-0001'', data = example_request, status = ''Open'',
                     status_history = [\<lparr> entry_status = ''Open'', timestamp = ''2024-05-01T10:00:00'' \<rparr>],
                     created_at = ''2024-05-01T10:00:00'' \<rparr>)
   \<and> get_request
         (snd (update_request_status ''REQ-0001'' ''Closed'' ''2024-05-03T09:00:00''
           (snd (update_request_status ''REQ-0001'' ''In Progress'' ''2024-05-02T09:00:00''
             (snd (create_request example_request ''2024-05-01T10:00:00'' init_database))))))
         ''REQ-0001''
       = Some \<lparr> rec_id = ''REQ-0001'', data = example_request, status = ''Closed'',
                status_history = [\<lparr> entry_status = ''Open'', timestamp = ''2024-05-01T10:00:00'' \<rparr>,
                                  \<lparr> entry_status = ''In Progress'', timestamp = ''2024-05-02T09:00:00'' \<rparr>,
                                  \<lparr> entry_status = ''Closed'', timestamp = ''2024-05-03T09:00:00'' \<rparr>],
                created_at = ''2024-05-01T10:00:00'' \<rparr>
   \<and> \<not> list_all (\<lambda>line. sqlite_integer (amount line)) (order_lines oversized_request)
   \<and> create_request oversized_request ''2024-05-01T10:00:00'' init_database
       = (Inl (PyException ''Python int too large to convert to SQLite INTEGER''), init_database)"
proof -
  have id: "get_next_request_id init_database = ''REQ-0001''"
    by (simp add: get_next_request_id_def init_database_def format_request_id_def zero_pad_def
        dec.simps numeral_3_eq_3)
  have ok: "list_all (\<lambda>line. sqlite_integer (amount line)) (order_lines example_request)"
    by (simp add: example_request_def sqlite_integer_def)
  have huge: "\<not> list_all (\<lambda>line. sqlite_integer (amount line)) (order_lines oversized_request)"
    by (simp add: oversized_request_def sqlite_integer_def)
  from status_history_append_only[OF reachable_init, where d = example_request
      and now = "''2024-05-01T10:00:00''" and tb = "''2024-05-02T09:00:00''"
      and tc = "''2024-05-03T09:00:00''"] ok
  have 1: "fst (create_request example_request ''2024-05-01T10:00:00'' init_database)
       = Inr (Some \<lparr> rec_id = ''REQ-0001'', data = example_request, status = ''Open'',
                     status_history = [\<lparr> entry_status = ''Open'', timestamp = ''2024-05-01T10:00:00'' \<rparr>],
                     created_at = ''2024-05-01T10:00:00'' \<rparr>)"
    and 2: "get_request
         (snd (update_request_status ''REQ-0001'' ''Closed'' ''2024-05-03T09:00:00''
           (snd (update_request_status ''REQ-0001'' ''In Progress'' ''2024-05-02T09:00:00''
             (snd (create_request example_request ''2024-05-01T10:00:00'' init_database))))))
         ''REQ-0001''
       = Some \<lparr> rec_id = ''REQ-0001'', data = example_request, status = ''Closed'',
                status_history = [\<lparr> entry_status = ''Open'', timestamp = ''2024-05-01T10:00:00'' \<rparr>,
                                  \<lparr> entry_status = ''In Progress'', timestamp = ''2024-05-02T09:00:00'' \<rparr>,
                                  \<lparr> entry_status = ''Closed'', timestamp = ''2024-05-03T09:00:00'' \<rparr>],
                created_at = ''2024-05-01T10:00:00'' \<rparr>"
    unfolding id by (metis fst_conv, blast)
  from status_history_append_only[OF reachable_init, where d = oversized_request
      and now = "''2024-05-01T10:00:00''"] huge
  have 3: "create_request oversized_request ''2024-05-01T10:00:00'' init_database
       = (Inl (PyException ''Python int too large to convert to SQLite INTEGER''), init_database)"
    by blast
  from reachable_init id ok 1 2 huge 3 show ?thesis by blast
qed

end
